theory Spec2Isabelle
  imports Main "HOL-Library.Word"
begin

unbundle bit_operations_syntax

section \<open>The virtio entropy device of hw/pci/virtio/virtio\_rnd.c\<close>

text \<open>
  The device keeps all of its state in one \<open>struct virtio_rnd\<close>. Everything the file
  does beyond that struct is a call into the host (open, read, close, calloc, free),
  into the virtio transport framework (virtio.c) or into the VBS-K control channel
  (virtio\_kernel.c). Those calls are recorded, in order, in an event list; what a call
  returns is read from an oracle that may depend on the whole history of events.
\<close>

subsection \<open>Data of virtio\_kernel.h and virtio.h, as the source uses it\<close>

text \<open>
  The headers are not among the source files. A type declared there has the fields and
  the values that the device file names; a C \<open>int\<close> that is only stored and compared is
  an \<open>int\<close>, an unsigned field of a given width is a word.
\<close>

text \<open>\<open>enum VBS_K_STATUS\<close>, the session status.\<close>

datatype VBS_K_STATUS =
    VIRTIO_DEV_INITIAL
  | VIRTIO_DEV_PRE_INIT
  | VIRTIO_DEV_INIT_FAILED
  | VIRTIO_DEV_INIT_SUCCESS
  | VIRTIO_DEV_START_FAILED
  | VIRTIO_DEV_STARTED

text \<open>
  Return codes of the VBS-K interface functions. The header gives \<open>VIRTIO_SUCCESS\<close> as
  zero and the error codes as positive numbers, which the functions return negated; the
  callers only ever test \<open>rc < 0\<close>, which is \<open>rc_negative\<close>.
\<close>

datatype vbs_rc =
    VIRTIO_SUCCESS
  | Neg_VIRTIO_ERROR_FD_OPEN_FAILED
  | Neg_VIRTIO_ERROR_START
  | Neg_VIRTIO_ERROR_GENERAL

definition rc_negative :: "vbs_rc \<Rightarrow> bool" where
  "rc_negative rc = (rc \<noteq> VIRTIO_SUCCESS)"

text \<open>\<open>struct vbs_dev_info\<close>: the device-descriptor record handed to the kernel.\<close>

record vbs_dev_info =
  kd_name :: string
  kd_vmid :: int
  kd_nvq :: int
  kd_negotiated_features :: "32 word"
  kd_pio_range_start :: "64 word"
  kd_pio_range_len :: "64 word"

text \<open>\<open>struct vbs_vq_info\<close> and \<open>struct vbs_vqs_info\<close>: the per-queue records.\<close>

record vbs_vq_info =
  kq_qsize :: "16 word"
  kq_pfn :: "32 word"
  kq_msix_idx :: "16 word"
  kq_msix_addr :: "64 word"
  kq_msix_data :: "32 word"

record vbs_vqs_info =
  kvs_nvq :: "32 word"
  kvs_vqs :: "vbs_vq_info list"

text \<open>The operation table \<open>struct virtio_ops\<close>; a function pointer is a tag.\<close>

datatype reset_fn = Fn_virtio_rnd_reset
datatype qnotify_fn = Fn_virtio_rnd_notify | Fn_virtio_rnd_k_no_notify
datatype set_status_fn = Fn_virtio_rnd_k_set_status

record virtio_ops =
  vo_name :: string
  vo_nvq :: int
  vo_cfgsize :: nat
  vo_reset :: reset_fn
  vo_qnotify :: qnotify_fn
  vo_set_status :: "set_status_fn option"
  vo_hv_caps :: "64 word"

text \<open>What the file reads of \<open>struct pci_vdev\<close> through \<open>rnd->base.dev\<close>.\<close>

record msix_table_entry =
  mte_addr :: "64 word"
  mte_msg_data :: "32 word"

record pci_vdev =
  pd_vmid :: int
  pd_bar0_addr :: "64 word"
  pd_msix_table :: "nat \<Rightarrow> msix_table_entry"

text \<open>
  What the file reads of \<open>struct virtio_base\<close>. The two pointers are \<open>None\<close> in the
  block that calloc returns, until \<open>virtio_linkup\<close> stores them.
\<close>

record virtio_base =
  vb_vops :: "virtio_ops option"
  vb_dev :: "pci_vdev option"
  vb_negotiated_caps :: "32 word"

text \<open>A popped descriptor chain: its head index and the one buffer segment.\<close>

record iovec =
  iov_base :: "64 word"
  iov_len :: nat

record chain =
  ch_idx :: "16 word"
  ch_iov :: iovec

text \<open>
  \<open>struct virtio_vq_info\<close>: the three fields the file reads, and the ring itself as the
  transport framework keeps it: the chains the guest has made available, the chains
  released so far with their byte counts, and how many were released since the last
  completion signal.
\<close>

record virtio_vq_info =
  vq_qsize :: "16 word"
  vq_pfn :: "32 word"
  vq_msix_idx :: "16 word"
  vq_pending :: "chain list"
  vq_released :: "(16 word \<times> 32 word) list"
  vq_batch :: nat

datatype mutex_kind = PTHREAD_MUTEX_DEFAULT | PTHREAD_MUTEX_RECURSIVE

text \<open>\<open>struct virtio_rnd\<close>, the per-device struct, with \<open>vbs_k\<close> flattened.\<close>

record virtio_rnd =
  rnd_base :: virtio_base
  rnd_vq :: virtio_vq_info
  rnd_mtx :: "mutex_kind option"
  rnd_cfg :: "64 word"
  rnd_fd :: int
  vbs_k_status :: VBS_K_STATUS
  vbs_k_fd :: int
  vbs_k_dev :: vbs_dev_info
  vbs_k_vqs :: vbs_vqs_info

subsection \<open>The host: events and oracles\<close>

datatype event =
    Ev_open string int
  | Ev_read int nat int
  | Ev_close int
  | Ev_calloc bool
  | Ev_free
  | Ev_virtio_linkup virtio_ops
  | Ev_pci_set_cfgdata nat string string
  | Ev_virtio_interrupt_init bool int
  | Ev_virtio_set_io_bar nat
  | Ev_virtio_reset_dev
  | Ev_vbs_kernel_start int vbs_dev_info vbs_vqs_info int
  | Ev_vbs_kernel_stop int int
  | Ev_vbs_kernel_reset int int
  | Ev_vq_endchains int
  | Ev_vq_interrupt

text \<open>
  How the process can end inside a function: a failed \<open>assert\<close>, a null pointer
  followed, or a variable read that was never written.
\<close>

datatype abort = Assertion_failed | Null_dereference | Uninitialised_read

text \<open>What read(2) can answer: an error, or a number of bytes on offer.\<close>

datatype read_result = Read_failed | Read_bytes nat

text \<open>
  The environment of the file, taken as a parameter: the constants of the headers that
  are not among the source files, and one oracle for each call whose result the file
  looks at. An oracle sees the events so far. \<open>virtio_interrupt_init\<close> and
  \<open>virtio_reset_dev\<close> are functions of virtio.c, and \<open>vbs_kernel_start\<close>,
  \<open>vbs_kernel_stop\<close> and \<open>vbs_kernel_reset\<close> of virtio\_kernel.c; the generic reset
  works on the generic state, which is the base and the queue.
\<close>

record env =
  VIRTIO_CR_STATUS_DRIVER_OK :: "64 word"
  VIRTIO_MSI_NO_VECTOR :: "16 word"
  VBS_NAME_LEN :: nat
  VBS_MAX_VQ_CNT :: nat
  fbsdrun_virtio_msix :: bool
  os_open :: "event list \<Rightarrow> string \<Rightarrow> int"
  os_read :: "event list \<Rightarrow> int \<Rightarrow> nat \<Rightarrow> read_result"
  os_calloc :: "event list \<Rightarrow> bool"
  virtio_interrupt_init :: "event list \<Rightarrow> bool \<Rightarrow> int"
  virtio_reset_dev :: "virtio_base \<Rightarrow> virtio_vq_info \<Rightarrow> virtio_base \<times> virtio_vq_info"
  vbs_kernel_start :: "event list \<Rightarrow> int \<Rightarrow> vbs_dev_info \<Rightarrow> vbs_vqs_info \<Rightarrow> int"
  vbs_kernel_stop :: "event list \<Rightarrow> int \<Rightarrow> int"
  vbs_kernel_reset :: "event list \<Rightarrow> int \<Rightarrow> int"

text \<open>
  The value read(2) returns for a request of \<open>count\<close> bytes: -1 on error, otherwise the
  number of bytes read, never more than \<open>count\<close>.
\<close>

definition read_c :: "env \<Rightarrow> event list \<Rightarrow> int \<Rightarrow> nat \<Rightarrow> int" where
  "read_c e tr fd count =
     (case os_read e tr fd count of
        Read_failed \<Rightarrow> - 1
      | Read_bytes n \<Rightarrow> int (min n count))"

text \<open>The conversion of the \<open>ssize_t\<close> that read returns to the \<open>int len\<close> of the source.\<close>

definition int_of_ssize :: "int \<Rightarrow> int" where
  "int_of_ssize r = (r + 2 ^ 31) mod 2 ^ 32 - 2 ^ 31"

subsection \<open>The two operation tables\<close>

definition virtio_rnd_ops :: virtio_ops where
  "virtio_rnd_ops =
     \<lparr> vo_name = ''virtio_rnd'', vo_nvq = 1, vo_cfgsize = 0,
       vo_reset = Fn_virtio_rnd_reset, vo_qnotify = Fn_virtio_rnd_notify,
       vo_set_status = None, vo_hv_caps = 0 \<rparr>"

definition virtio_rnd_ops_k :: virtio_ops where
  "virtio_rnd_ops_k =
     \<lparr> vo_name = ''virtio_rnd'', vo_nvq = 1, vo_cfgsize = 0,
       vo_reset = Fn_virtio_rnd_reset, vo_qnotify = Fn_virtio_rnd_k_no_notify,
       vo_set_status = Some Fn_virtio_rnd_k_set_status, vo_hv_caps = 0 \<rparr>"

subsection \<open>Zeroed memory\<close>

text \<open>What \<open>memset(p, 0, sizeof ...)\<close> and calloc leave in each struct.\<close>

definition vbs_dev_info_zero :: vbs_dev_info where
  "vbs_dev_info_zero =
     \<lparr> kd_name = [], kd_vmid = 0, kd_nvq = 0, kd_negotiated_features = 0,
       kd_pio_range_start = 0, kd_pio_range_len = 0 \<rparr>"

definition vbs_vq_info_zero :: vbs_vq_info where
  "vbs_vq_info_zero =
     \<lparr> kq_qsize = 0, kq_pfn = 0, kq_msix_idx = 0, kq_msix_addr = 0, kq_msix_data = 0 \<rparr>"

definition vbs_vqs_info_zero :: "env \<Rightarrow> vbs_vqs_info" where
  "vbs_vqs_info_zero e =
     \<lparr> kvs_nvq = 0, kvs_vqs = replicate (VBS_MAX_VQ_CNT e) vbs_vq_info_zero \<rparr>"

definition virtio_base_zero :: virtio_base where
  "virtio_base_zero = \<lparr> vb_vops = None, vb_dev = None, vb_negotiated_caps = 0 \<rparr>"

definition virtio_vq_info_zero :: virtio_vq_info where
  "virtio_vq_info_zero =
     \<lparr> vq_qsize = 0, vq_pfn = 0, vq_msix_idx = 0, vq_pending = [], vq_released = [],
       vq_batch = 0 \<rparr>"

text \<open>
  The block of line 378 after line 384 has stored \<open>kstat\<close> in it: every other field is
  zero.
\<close>

definition calloc_virtio_rnd :: "env \<Rightarrow> VBS_K_STATUS \<Rightarrow> virtio_rnd" where
  "calloc_virtio_rnd e kstat =
     \<lparr> rnd_base = virtio_base_zero, rnd_vq = virtio_vq_info_zero, rnd_mtx = None,
       rnd_cfg = 0, rnd_fd = 0, vbs_k_status = kstat, vbs_k_fd = 0,
       vbs_k_dev = vbs_dev_info_zero, vbs_k_vqs = vbs_vqs_info_zero e \<rparr>"

subsection \<open>The transport framework (virtio.c)\<close>

text \<open>
  virtio.c, which holds the virtqueue functions and \<open>virtio_linkup\<close>, is not among the
  source files. Each function that the device file calls there is given as the
  specification describes it, on the ring of \<open>virtio_vq_info\<close>.
\<close>

text \<open>
  Modelled from the spec: \<open>vq_has_descs\<close> of virtio.c, the "queue-has-pending-chains
  check".
\<close>

definition vq_has_descs :: "virtio_vq_info \<Rightarrow> bool" where
  "vq_has_descs q = (vq_pending q \<noteq> [])"

text \<open>
  Modelled from the spec: \<open>vq_getchain\<close> of virtio.c, called with room for one segment:
  "pop-one-chain (single buffer) into a scatter descriptor". The head index, the
  segment, and the queue without the chain; nothing when no chain is pending.
\<close>

definition vq_getchain :: "virtio_vq_info \<Rightarrow> (16 word \<times> iovec \<times> virtio_vq_info) option" where
  "vq_getchain q =
     (case vq_pending q of
        [] \<Rightarrow> None
      | c # cs \<Rightarrow> Some (ch_idx c, ch_iov c, q\<lparr>vq_pending := cs\<rparr>))"

text \<open>
  Modelled from the spec: \<open>vq_relchain\<close> of virtio.c, "release-chain with a byte
  count".
\<close>

definition vq_relchain :: "virtio_vq_info \<Rightarrow> 16 word \<Rightarrow> 32 word \<Rightarrow> virtio_vq_info" where
  "vq_relchain q idx iolen =
     q\<lparr>vq_released := vq_released q @ [(idx, iolen)], vq_batch := Suc (vq_batch q)\<rparr>"

text \<open>
  Modelled from the spec: \<open>vq_endchains\<close> of virtio.c, "raise-batch-completion
  (optionally signaling guest interrupt)": the completion signal "triggers a guest
  interrupt if and only if at least one chain was processed in this batch".
\<close>

definition vq_endchains ::
  "virtio_vq_info \<Rightarrow> int \<Rightarrow> event list \<Rightarrow> virtio_vq_info \<times> event list" where
  "vq_endchains q used_all_avail tr =
     (q\<lparr>vq_batch := 0\<rparr>,
      tr @ [Ev_vq_endchains used_all_avail] @
        (if 0 < vq_batch q then [Ev_vq_interrupt] else []))"

text \<open>
  Modelled from the spec: \<open>virtio_linkup\<close> of virtio.c, "bind device instance +
  operation table to a PCI bar". Of what it stores, the device file reads the operation
  table and the PCI device back.
\<close>

definition virtio_linkup ::
  "virtio_base \<Rightarrow> virtio_ops \<Rightarrow> pci_vdev \<Rightarrow> event list \<Rightarrow> virtio_base \<times> event list" where
  "virtio_linkup b vops dev tr =
     (b\<lparr>vb_vops := Some vops, vb_dev := Some dev\<rparr>, tr @ [Ev_virtio_linkup vops])"

subsection \<open>String functions of the C library\<close>

text \<open>
  \<open>strsep(&s, delim)\<close>: the token returned and the new value of \<open>s\<close>. A null \<open>s\<close> gives
  a null token; otherwise the token ends at the first character of \<open>delim\<close>, and \<open>s\<close>
  moves past it, or becomes null when there is none.
\<close>

definition strsep :: "string option \<Rightarrow> string \<Rightarrow> string option \<times> string option" where
  "strsep sp delim =
     (case sp of
        None \<Rightarrow> (None, None)
      | Some s \<Rightarrow>
          (Some (takeWhile (\<lambda>c. c \<notin> set delim) s),
           (case dropWhile (\<lambda>c. c \<notin> set delim) s of
              [] \<Rightarrow> None
            | _ # rest \<Rightarrow> Some rest)))"

text \<open>\<open>strncmp(a, b, n) == 0\<close>.\<close>

definition strncmp_eq :: "string \<Rightarrow> string \<Rightarrow> nat \<Rightarrow> bool" where
  "strncmp_eq a b n = (take n a = take n b)"

text \<open>\<open>strncpy\<close> into a zeroed array, read back as a string.\<close>

definition strncpy :: "string \<Rightarrow> nat \<Rightarrow> string" where
  "strncpy src n = take n src"

subsection \<open>VBS-K interface functions\<close>

text \<open>\<open>virtio_rnd_kernel_init\<close>, lines 198 to 214.\<close>

definition virtio_rnd_kernel_init ::
  "env \<Rightarrow> virtio_rnd \<Rightarrow> event list \<Rightarrow> abort + (vbs_rc \<times> virtio_rnd \<times> event list)" where
  "virtio_rnd_kernel_init e rnd tr =
     (if vbs_k_fd rnd \<noteq> 0 then Inl Assertion_failed
      else
        let kfd = os_open e tr ''/dev/vbs_rng'';
            tr1 = tr @ [Ev_open ''/dev/vbs_rng'' kfd];
            rnd1 = rnd\<lparr>vbs_k_fd := kfd\<rparr>
        in if kfd < 0 then Inr (Neg_VIRTIO_ERROR_FD_OPEN_FAILED, rnd1, tr1)
           else Inr (VIRTIO_SUCCESS,
                     rnd1\<lparr>vbs_k_dev := vbs_dev_info_zero, vbs_k_vqs := vbs_vqs_info_zero e\<rparr>,
                     tr1))"

text \<open>\<open>virtio_rnd_kernel_dev_set\<close>, lines 216 to 232.\<close>

definition virtio_rnd_kernel_dev_set ::
  "env \<Rightarrow> vbs_dev_info \<Rightarrow> string \<Rightarrow> int \<Rightarrow> int \<Rightarrow> 32 word \<Rightarrow> 64 word \<Rightarrow> 64 word
     \<Rightarrow> vbs_rc \<times> vbs_dev_info" where
  "virtio_rnd_kernel_dev_set e kdev name vmid nvq feature pio_start pio_len =
     (VIRTIO_SUCCESS,
      kdev\<lparr>kd_name := strncpy name (VBS_NAME_LEN e), kd_vmid := vmid, kd_nvq := nvq,
           kd_negotiated_features := feature, kd_pio_range_start := pio_start,
           kd_pio_range_len := pio_len\<rparr>)"

text \<open>
  \<open>virtio_rnd_kernel_vq_set\<close>, lines 234 to 255. The index is below \<open>nvq\<close> when the
  array is written; the array has \<open>VBS_MAX_VQ_CNT\<close> entries.
\<close>

definition virtio_rnd_kernel_vq_set ::
  "vbs_vqs_info \<Rightarrow> 32 word \<Rightarrow> 32 word \<Rightarrow> 16 word \<Rightarrow> 32 word \<Rightarrow> 16 word \<Rightarrow> 64 word \<Rightarrow> 32 word
     \<Rightarrow> vbs_rc \<times> vbs_vqs_info" where
  "virtio_rnd_kernel_vq_set kvqs nvq idx qsize pfn msix_idx msix_addr msix_data =
     (if nvq \<le> idx then (Neg_VIRTIO_ERROR_GENERAL, kvqs)
      else
        (VIRTIO_SUCCESS,
         kvqs\<lparr>kvs_nvq := nvq,
              kvs_vqs := (kvs_vqs kvqs)[unat idx :=
                \<lparr> kq_qsize = qsize, kq_pfn = pfn, kq_msix_idx = msix_idx,
                  kq_msix_addr = msix_addr, kq_msix_data = msix_data \<rparr>]\<rparr>))"

text \<open>\<open>virtio_rnd_kernel_start\<close>, lines 257 to 269.\<close>

definition virtio_rnd_kernel_start :: "env \<Rightarrow> virtio_rnd \<Rightarrow> event list \<Rightarrow> vbs_rc \<times> event list" where
  "virtio_rnd_kernel_start e rnd tr =
     (let r = vbs_kernel_start e tr (vbs_k_fd rnd) (vbs_k_dev rnd) (vbs_k_vqs rnd);
          tr1 = tr @ [Ev_vbs_kernel_start (vbs_k_fd rnd) (vbs_k_dev rnd) (vbs_k_vqs rnd) r]
      in if r < 0 then (Neg_VIRTIO_ERROR_START, tr1) else (VIRTIO_SUCCESS, tr1))"

text \<open>\<open>virtio_rnd_kernel_stop\<close>, lines 271 to 276; the result is that of the kernel.\<close>

definition virtio_rnd_kernel_stop :: "env \<Rightarrow> virtio_rnd \<Rightarrow> event list \<Rightarrow> int \<times> event list" where
  "virtio_rnd_kernel_stop e rnd tr =
     (let r = vbs_kernel_stop e tr (vbs_k_fd rnd)
      in (r, tr @ [Ev_vbs_kernel_stop (vbs_k_fd rnd) r]))"

text \<open>\<open>virtio_rnd_kernel_reset\<close>, lines 278 to 285.\<close>

definition virtio_rnd_kernel_reset ::
  "env \<Rightarrow> virtio_rnd \<Rightarrow> event list \<Rightarrow> int \<times> virtio_rnd \<times> event list" where
  "virtio_rnd_kernel_reset e rnd tr =
     (let rnd1 = rnd\<lparr>vbs_k_dev := vbs_dev_info_zero, vbs_k_vqs := vbs_vqs_info_zero e\<rparr>;
          r = vbs_kernel_reset e tr (vbs_k_fd rnd1)
      in (r, rnd1, tr @ [Ev_vbs_kernel_reset (vbs_k_fd rnd1) r]))"

subsection \<open>The option loop of \<open>virtio_rnd_init\<close>\<close>

text \<open>
  Lines 349 to 360: \<open>kstat\<close> starts as \<open>VIRTIO_DEV_INITIAL\<close>; the loop runs once for
  each comma-separated token, and looks only at what follows the first \<open>=\<close> of the
  token.
\<close>

function virtio_rnd_init_opts :: "string option \<Rightarrow> VBS_K_STATUS \<Rightarrow> VBS_K_STATUS" where
  "virtio_rnd_init_opts opts kstat =
     (case strsep opts '','' of
        (None, opts1) \<Rightarrow> kstat
      | (Some tok, opts1) \<Rightarrow>
          (case strsep (Some tok) ''='' of
             (vbs_k_opt, None) \<Rightarrow> virtio_rnd_init_opts opts1 kstat
           | (vbs_k_opt, Some opt) \<Rightarrow>
               virtio_rnd_init_opts opts1
                 (if strncmp_eq opt ''on'' 2 then VIRTIO_DEV_PRE_INIT else kstat)))"
  by pat_completeness auto
termination
proof (relation "measure (\<lambda>(opts, kstat). case opts of None \<Rightarrow> 0 | Some s \<Rightarrow> Suc (length s))")
  show "wf (measure (\<lambda>(opts, kstat). case opts of None \<Rightarrow> 0 | Some s \<Rightarrow> Suc (length s)))"
    by simp
next
  have shorter: "length rest < length s"
    if "strsep (Some s) delim = (tok, Some rest)" for s delim tok rest
  proof -
    have le: "length (dropWhile (\<lambda>c. c \<notin> set delim) s) \<le> length s"
      by (rule length_dropWhile_le)
    from that obtain x where "dropWhile (\<lambda>c. c \<notin> set delim) s = x # rest"
      by (auto simp: strsep_def split: list.splits)
    with le show ?thesis by simp
  qed
  have dec: "(case y of None \<Rightarrow> 0 | Some s \<Rightarrow> Suc (length s))
      < (case opts of None \<Rightarrow> 0 | Some s \<Rightarrow> Suc (length s))"
    if "strsep opts '','' = (Some tok, y)" for opts tok y
  proof -
    from that obtain s0 where o: "opts = Some s0"
      by (cases opts) (auto simp: strsep_def)
    show ?thesis using that o shorter [of s0 "'',''" "Some tok"] by (cases y) auto
  qed
  {
    fix opts :: "string option" and kstat :: VBS_K_STATUS and x y tok
    assume "(x, y) = strsep opts '',''" "x = Some tok"
    then have "strsep opts '','' = (Some tok, y)" by simp
    then show "((y, kstat), opts, kstat)
        \<in> measure (\<lambda>(opts, kstat). case opts of None \<Rightarrow> 0 | Some s \<Rightarrow> Suc (length s))"
      using dec by simp
  next
    fix opts :: "string option" and kstat :: VBS_K_STATUS and x y tok opt
    assume "(x, y) = strsep opts '',''" "x = Some tok"
    then have "strsep opts '','' = (Some tok, y)" by simp
    then show "((y, if strncmp_eq opt ''on'' 2 then VIRTIO_DEV_PRE_INIT else kstat), opts, kstat)
        \<in> measure (\<lambda>(opts, kstat). case opts of None \<Rightarrow> 0 | Some s \<Rightarrow> Suc (length s))"
      using dec by simp
  }
qed

text \<open>
  The status-write loop, lines 164 to 183. \<open>msix_addr\<close> and \<open>msix_data\<close> keep their
  value from one round to the next; a negative \<open>rc\<close> leaves the function (\<open>Inl\<close>).
\<close>

function virtio_rnd_k_set_status_loop ::
  "env \<Rightarrow> virtio_vq_info \<Rightarrow> pci_vdev \<Rightarrow> int \<Rightarrow> int \<Rightarrow> 64 word \<Rightarrow> 32 word \<Rightarrow> vbs_vqs_info
     \<Rightarrow> (vbs_rc \<times> vbs_vqs_info) + vbs_vqs_info" where
  "virtio_rnd_k_set_status_loop e q dev nvq i msix_addr msix_data kvqs =
     (if i < nvq then
        let mte = pd_msix_table dev (unat (vq_msix_idx q));
            msix_addr1 =
              (if vq_msix_idx q \<noteq> VIRTIO_MSI_NO_VECTOR e then mte_addr mte else msix_addr);
            msix_data1 =
              (if vq_msix_idx q \<noteq> VIRTIO_MSI_NO_VECTOR e then mte_msg_data mte else msix_data);
            r = virtio_rnd_kernel_vq_set kvqs (word_of_int nvq) (word_of_int i)
                  (vq_qsize q) (vq_pfn q) (vq_msix_idx q) msix_addr1 msix_data1
        in if rc_negative (fst r) then Inl r
           else virtio_rnd_k_set_status_loop e q dev nvq (i + 1) msix_addr1 msix_data1 (snd r)
      else Inr kvqs)"
  by pat_completeness auto
termination
  by (relation "measure (\<lambda>(e, q, dev, nvq, i, a, d, kvqs). nat (nvq - i))") auto

text \<open>\<open>virtio_rnd_k_set_status\<close>, lines 135 to 192.\<close>

definition virtio_rnd_k_set_status ::
  "env \<Rightarrow> virtio_rnd \<Rightarrow> 64 word \<Rightarrow> event list \<Rightarrow> abort + (virtio_rnd \<times> event list)" where
  "virtio_rnd_k_set_status e rnd status tr =
     (case vb_vops (rnd_base rnd) of
        None \<Rightarrow> Inl Null_dereference
      | Some vops \<Rightarrow>
          let nvq = vo_nvq vops
          in if vbs_k_status rnd = VIRTIO_DEV_INIT_SUCCESS
                \<and> status AND VIRTIO_CR_STATUS_DRIVER_OK e \<noteq> 0
             then
               (case vb_dev (rnd_base rnd) of
                  None \<Rightarrow> Inl Null_dereference
                | Some dev \<Rightarrow>
                    let kdev = snd (virtio_rnd_kernel_dev_set e (vbs_k_dev rnd) (vo_name vops)
                                 (pd_vmid dev) nvq (vb_negotiated_caps (rnd_base rnd))
                                 (pd_bar0_addr dev + 16) 2);
                        rnd1 = rnd\<lparr>vbs_k_dev := kdev\<rparr>
                    in (case virtio_rnd_k_set_status_loop e (rnd_vq rnd1) dev nvq 0 0 0
                               (vbs_k_vqs rnd1) of
                          Inl r \<Rightarrow> Inr (rnd1\<lparr>vbs_k_vqs := snd r\<rparr>, tr)
                        | Inr kvqs \<Rightarrow>
                            let rnd2 = rnd1\<lparr>vbs_k_vqs := kvqs\<rparr>;
                                st = virtio_rnd_kernel_start e rnd2 tr
                            in if rc_negative (fst st)
                               then Inr (rnd2\<lparr>vbs_k_status := VIRTIO_DEV_START_FAILED\<rparr>, snd st)
                               else Inr (rnd2\<lparr>vbs_k_status := VIRTIO_DEV_STARTED\<rparr>, snd st)))
             else Inr (rnd, tr))"




text \<open>\<open>virtio_rnd_k_no_notify\<close>, lines 125 to 129: a warning is printed, nothing else.\<close>

definition virtio_rnd_k_no_notify ::
  "virtio_rnd \<Rightarrow> virtio_vq_info \<Rightarrow> event list \<Rightarrow> virtio_vq_info \<times> event list" where
  "virtio_rnd_k_no_notify rnd q tr = (q, tr)"

text \<open>\<open>virtio_rnd_reset\<close>, lines 287 to 303.\<close>

definition virtio_rnd_reset :: "env \<Rightarrow> virtio_rnd \<Rightarrow> event list \<Rightarrow> virtio_rnd \<times> event list" where
  "virtio_rnd_reset e rnd tr =
     (let bq = virtio_reset_dev e (rnd_base rnd) (rnd_vq rnd);
          rnd1 = rnd\<lparr>rnd_base := fst bq, rnd_vq := snd bq\<rparr>;
          tr1 = tr @ [Ev_virtio_reset_dev]
      in if vbs_k_status rnd1 = VIRTIO_DEV_STARTED then
           let tr2 = snd (virtio_rnd_kernel_stop e rnd1 tr1);
               kr = virtio_rnd_kernel_reset e rnd1 tr2
           in ((fst (snd kr))\<lparr>vbs_k_status := VIRTIO_DEV_INITIAL\<rparr>, snd (snd kr))
         else (rnd1, tr1))"

text \<open>
  The drain loop of \<open>virtio_rnd_notify\<close>, lines 320 to 334. The assertion of line 328
  ends the process. \<open>vq_relchain\<close> takes the length as a \<open>uint32_t\<close>.
\<close>

function virtio_rnd_notify_loop ::
  "env \<Rightarrow> int \<Rightarrow> virtio_vq_info \<Rightarrow> event list \<Rightarrow> abort + (virtio_vq_info \<times> event list)" where
  "virtio_rnd_notify_loop e fd q tr =
     (if vq_has_descs q then
        (case vq_getchain q of
           None \<Rightarrow> Inl Uninitialised_read
         | Some (idx, iov, q1) \<Rightarrow>
             let r = read_c e tr fd (iov_len iov);
                 len = int_of_ssize r;
                 tr1 = tr @ [Ev_read fd (iov_len iov) r]
             in if \<not> 0 < len then Inl Assertion_failed
                else virtio_rnd_notify_loop e fd (vq_relchain q1 idx (word_of_int len)) tr1)
      else Inr (q, tr))"
  by pat_completeness auto
termination
  by (relation "measure (\<lambda>(e, fd, q, tr). length (vq_pending q))")
     (auto simp: vq_getchain_def vq_relchain_def split: list.splits)

text \<open>\<open>virtio_rnd_notify\<close>, lines 305 to 336.\<close>

definition virtio_rnd_notify ::
  "env \<Rightarrow> virtio_rnd \<Rightarrow> virtio_vq_info \<Rightarrow> event list \<Rightarrow> abort + (virtio_vq_info \<times> event list)" where
  "virtio_rnd_notify e rnd q tr =
     (if rnd_fd rnd < 0 then Inr (vq_endchains q 0 tr)
      else
        (case virtio_rnd_notify_loop e (rnd_fd rnd) q tr of
           Inl a \<Rightarrow> Inl a
         | Inr (q1, tr1) \<Rightarrow> Inr (vq_endchains q1 1 tr1)))"

subsection \<open>\<open>virtio_rnd_init\<close> and \<open>virtio_rnd_deinit\<close>\<close>

definition VIRTIO_RND_RINGSZ :: "16 word" where
  "VIRTIO_RND_RINGSZ = 64"

text \<open>Lines 405 to 417: the VBS-K option was given.\<close>

definition virtio_rnd_init_vbs_k ::
  "env \<Rightarrow> pci_vdev \<Rightarrow> virtio_rnd \<Rightarrow> event list \<Rightarrow> abort + (virtio_rnd \<times> event list)" where
  "virtio_rnd_init_vbs_k e dev rnd tr =
     (if vbs_k_status rnd = VIRTIO_DEV_PRE_INIT then
        let l = virtio_linkup (rnd_base rnd) virtio_rnd_ops_k dev tr;
            rnd1 = rnd\<lparr>rnd_base := fst l\<rparr>
        in (case virtio_rnd_kernel_init e rnd1 (snd l) of
              Inl a \<Rightarrow> Inl a
            | Inr (rc, rnd2, tr2) \<Rightarrow>
                if rc_negative rc
                then Inr (rnd2\<lparr>vbs_k_status := VIRTIO_DEV_INIT_FAILED\<rparr>, tr2)
                else Inr (rnd2\<lparr>vbs_k_status := VIRTIO_DEV_INIT_SUCCESS\<rparr>, tr2))
      else Inr (rnd, tr))"

text \<open>Lines 418 to 422: the fallback to VBS-U.\<close>

definition virtio_rnd_init_fallback ::
  "pci_vdev \<Rightarrow> virtio_rnd \<Rightarrow> event list \<Rightarrow> virtio_rnd \<times> event list" where
  "virtio_rnd_init_fallback dev rnd tr =
     (if vbs_k_status rnd = VIRTIO_DEV_INITIAL \<or> vbs_k_status rnd \<noteq> VIRTIO_DEV_INIT_SUCCESS
      then let l = virtio_linkup (rnd_base rnd) virtio_rnd_ops dev tr
           in (rnd\<lparr>rnd_base := fst l\<rparr>, snd l)
      else (rnd, tr))"

text \<open>Lines 431 to 436: the configuration space.\<close>

definition virtio_rnd_init_cfg :: "event list \<Rightarrow> event list" where
  "virtio_rnd_init_cfg tr =
     tr @ [Ev_pci_set_cfgdata 16 ''PCIR_DEVICE'' ''VIRTIO_DEV_RANDOM'',
           Ev_pci_set_cfgdata 16 ''PCIR_VENDOR'' ''VIRTIO_VENDOR'',
           Ev_pci_set_cfgdata 8 ''PCIR_CLASS'' ''PCIC_CRYPTO'',
           Ev_pci_set_cfgdata 16 ''PCIR_SUBDEV_0'' ''VIRTIO_TYPE_ENTROPY'',
           Ev_pci_set_cfgdata 16 ''PCIR_SUBVEND_0'' ''VIRTIO_VENDOR'']"

text \<open>
  Lines 384 to 422 of \<open>virtio_rnd_init\<close>, once the block is allocated: \<open>kstat\<close> is
  stored, the lock is made (recursive unless MSI-X is used; the return codes of the
  pthread calls are only printed), and the backend is chosen.
\<close>

definition virtio_rnd_init_backend ::
  "env \<Rightarrow> pci_vdev \<Rightarrow> VBS_K_STATUS \<Rightarrow> event list \<Rightarrow> abort + (virtio_rnd \<times> event list)" where
  "virtio_rnd_init_backend e dev kstat tr =
     (let rnd0 = (calloc_virtio_rnd e kstat)
            \<lparr>rnd_mtx := Some (if fbsdrun_virtio_msix e then PTHREAD_MUTEX_DEFAULT
                              else PTHREAD_MUTEX_RECURSIVE)\<rparr>
      in (case virtio_rnd_init_vbs_k e dev rnd0 tr of
            Inl a \<Rightarrow> Inl a
          | Inr (rnd1, tr4) \<Rightarrow> Inr (virtio_rnd_init_fallback dev rnd1 tr4)))"

text \<open>
  Lines 424 to 446 of \<open>virtio_rnd_init\<close>: the ring size and the entropy handle are
  stored, the configuration space is filled, and interrupt delivery is registered; if
  that fails the block is freed.
\<close>

definition virtio_rnd_init_register ::
  "env \<Rightarrow> virtio_rnd \<Rightarrow> int \<Rightarrow> event list \<Rightarrow> int \<times> virtio_rnd option \<times> event list" where
  "virtio_rnd_init_register e rnd fd tr =
     (let rnd2 = rnd\<lparr>rnd_vq := (rnd_vq rnd)\<lparr>vq_qsize := VIRTIO_RND_RINGSZ\<rparr>, rnd_fd := fd\<rparr>;
          tr5 = virtio_rnd_init_cfg tr;
          rc = virtio_interrupt_init e tr5 (fbsdrun_virtio_msix e);
          tr6 = tr5 @ [Ev_virtio_interrupt_init (fbsdrun_virtio_msix e) rc]
      in if rc \<noteq> 0 then (- 1, None, tr6 @ [Ev_free])
         else (0, Some rnd2, tr6 @ [Ev_virtio_set_io_bar 0]))"

text \<open>
  \<open>virtio_rnd_init\<close>, lines 338 to 447: the value returned, the device instance left
  attached (if any), and the events.
\<close>

definition virtio_rnd_init ::
  "env \<Rightarrow> pci_vdev \<Rightarrow> string option \<Rightarrow> event list
     \<Rightarrow> abort + (int \<times> virtio_rnd option \<times> event list)" where
  "virtio_rnd_init e dev opts tr =
     (let kstat = virtio_rnd_init_opts opts VIRTIO_DEV_INITIAL;
          fd = os_open e tr ''/dev/random'';
          tr1 = tr @ [Ev_open ''/dev/random'' fd]
      in if fd < 0 then Inl Assertion_failed
         else
           let r = read_c e tr1 fd 1;
               len = int_of_ssize r;
               tr2 = tr1 @ [Ev_read fd 1 r]
           in if len \<le> 0 then Inr (- 1, None, tr2)
              else
                let ok = os_calloc e tr2;
                    tr3 = tr2 @ [Ev_calloc ok]
                in if \<not> ok then Inr (- 1, None, tr3)
                   else
                     (case virtio_rnd_init_backend e dev kstat tr3 of
                        Inl a \<Rightarrow> Inl a
                      | Inr (rnd, tr4) \<Rightarrow> Inr (virtio_rnd_init_register e rnd fd tr4)))"

text \<open>
  \<open>virtio_rnd_deinit\<close>, lines 449 to 472, on \<open>dev->arg\<close>: the contents of the block when
  it is freed (if there is one), and the events.
\<close>

definition virtio_rnd_deinit ::
  "env \<Rightarrow> virtio_rnd option \<Rightarrow> event list \<Rightarrow> abort + (virtio_rnd option \<times> event list)" where
  "virtio_rnd_deinit e arg tr =
     (case arg of
        None \<Rightarrow> Inr (None, tr)
      | Some rnd \<Rightarrow>
          if vbs_k_status rnd = VIRTIO_DEV_STARTED then
            let tr1 = snd (virtio_rnd_kernel_stop e rnd tr);
                kr = virtio_rnd_kernel_reset e rnd tr1;
                rnd1 = (fst (snd kr))\<lparr>vbs_k_status := VIRTIO_DEV_INITIAL\<rparr>
            in if \<not> 0 \<le> vbs_k_fd rnd1 then Inl Assertion_failed
               else Inr (Some (rnd1\<lparr>vbs_k_fd := - 1\<rparr>),
                         snd (snd kr) @ [Ev_close (vbs_k_fd rnd1), Ev_free])
          else Inr (Some rnd, tr @ [Ev_free]))"

subsection \<open>Operations on a device instance\<close>

text \<open>
  What can happen to an attached instance: the guest writes the status register, the
  device is reset, the queue is kicked (with either notify handler), or the transport
  framework changes the generic state (queue registers, negotiated features, chains
  made available).
\<close>

datatype rnd_op =
    Op_set_status "64 word"
  | Op_reset
  | Op_notify
  | Op_k_no_notify
  | Op_transport "virtio_base \<times> virtio_vq_info \<Rightarrow> virtio_base \<times> virtio_vq_info"

fun dm_step :: "env \<Rightarrow> virtio_rnd \<times> event list \<Rightarrow> rnd_op \<Rightarrow> abort + (virtio_rnd \<times> event list)" where
  "dm_step e (rnd, tr) (Op_set_status status) = virtio_rnd_k_set_status e rnd status tr"
| "dm_step e (rnd, tr) Op_reset = Inr (virtio_rnd_reset e rnd tr)"
| "dm_step e (rnd, tr) Op_notify =
     (case virtio_rnd_notify e rnd (rnd_vq rnd) tr of
        Inl a \<Rightarrow> Inl a
      | Inr (q, tr1) \<Rightarrow> Inr (rnd\<lparr>rnd_vq := q\<rparr>, tr1))"
| "dm_step e (rnd, tr) Op_k_no_notify =
     (case virtio_rnd_k_no_notify rnd (rnd_vq rnd) tr of
        (q, tr1) \<Rightarrow> Inr (rnd\<lparr>rnd_vq := q\<rparr>, tr1))"
| "dm_step e (rnd, tr) (Op_transport f) =
     (case f (rnd_base rnd, rnd_vq rnd) of
        (b, q) \<Rightarrow> Inr (rnd\<lparr>rnd_base := b, rnd_vq := q\<rparr>, tr))"

text \<open>The states an instance goes through under a list of operations, until an abort.\<close>

fun dm_states ::
  "env \<Rightarrow> virtio_rnd \<times> event list \<Rightarrow> rnd_op list \<Rightarrow> (virtio_rnd \<times> event list) list" where
  "dm_states e s [] = [s]"
| "dm_states e s (x # xs) =
     s # (case dm_step e s x of Inl a \<Rightarrow> [] | Inr s1 \<Rightarrow> dm_states e s1 xs)"

text \<open>The instances that exist: made by a successful init, then operated on.\<close>

inductive reachable :: "env \<Rightarrow> virtio_rnd \<times> event list \<Rightarrow> bool" for e where
  reach_init:
    "virtio_rnd_init e dev opts tr = Inr (0, Some rnd, tr1) \<Longrightarrow> reachable e (rnd, tr1)"
| reach_step:
    "reachable e s \<Longrightarrow> dm_step e s x = Inr s1 \<Longrightarrow> reachable e s1"

text \<open>The edges of the status path, as the specification draws it.\<close>

definition status_edge :: "VBS_K_STATUS \<Rightarrow> VBS_K_STATUS \<Rightarrow> bool" where
  "status_edge a b =
     ((a, b) \<in> set [(VIRTIO_DEV_INITIAL, VIRTIO_DEV_PRE_INIT),
                    (VIRTIO_DEV_PRE_INIT, VIRTIO_DEV_INIT_SUCCESS),
                    (VIRTIO_DEV_PRE_INIT, VIRTIO_DEV_INIT_FAILED),
                    (VIRTIO_DEV_INIT_SUCCESS, VIRTIO_DEV_STARTED),
                    (VIRTIO_DEV_INIT_SUCCESS, VIRTIO_DEV_START_FAILED),
                    (VIRTIO_DEV_STARTED, VIRTIO_DEV_INITIAL)])"

subsection \<open>Words of the specification\<close>

text \<open>
  The tokens that the loop of line 351 reads from an option string, one for each call
  of \<open>strsep(&opts, ",")\<close> that returns a token.
\<close>

function opt_tokens :: "string option \<Rightarrow> string list" where
  "opt_tokens opts =
     (case strsep opts '','' of
        (None, opts1) \<Rightarrow> []
      | (Some tok, opts1) \<Rightarrow> tok # opt_tokens opts1)"
  by pat_completeness auto
termination
proof (relation "measure (\<lambda>opts. case opts of None \<Rightarrow> 0 | Some s \<Rightarrow> Suc (length s))")
  show "wf (measure (\<lambda>opts. case opts of None \<Rightarrow> 0 | Some s \<Rightarrow> Suc (length s)))"
    by simp
next
  fix opts :: "string option" and x y tok
  assume "(x, y) = strsep opts '',''" "x = Some tok"
  then have st: "strsep opts '','' = (Some tok, y)" by simp
  then obtain s0 where o: "opts = Some s0"
    by (cases opts) (auto simp: strsep_def)
  have le: "length (dropWhile (\<lambda>c. c \<notin> set '','') s0) \<le> length s0"
    by (rule length_dropWhile_le)
  have "(case y of None \<Rightarrow> 0 | Some s \<Rightarrow> Suc (length s)) < Suc (length s0)"
    using st o le by (cases y) (auto simp: strsep_def split: list.splits)
  then show "(y, opts)
      \<in> measure (\<lambda>opts. case opts of None \<Rightarrow> 0 | Some s \<Rightarrow> Suc (length s))"
    using o by simp
qed

text \<open>A token with an \<open>=\<close> whose value, after the first \<open>=\<close>, begins with \<open>on\<close>.\<close>

definition token_on :: "string \<Rightarrow> bool" where
  "token_on tok =
     (case strsep (Some tok) ''='' of
        (vbs_k_opt, None) \<Rightarrow> False
      | (vbs_k_opt, Some opt) \<Rightarrow> strncmp_eq opt ''on'' 2)"

text \<open>A completion signal, whatever its argument.\<close>

fun is_endchains :: "event \<Rightarrow> bool" where
  "is_endchains (Ev_vq_endchains u) = True"
| "is_endchains ev = False"

text \<open>The events of the backend choice and of the configuration space.\<close>

fun is_setup :: "event \<Rightarrow> bool" where
  "is_setup (Ev_virtio_linkup vops) = True"
| "is_setup (Ev_open path fd) = True"
| "is_setup (Ev_pci_set_cfgdata w reg v) = True"
| "is_setup ev = False"

fun is_close :: "event \<Rightarrow> bool" where
  "is_close (Ev_close fd) = True"
| "is_close ev = False"

subsection \<open>An example host and example instances\<close>

text \<open>
  A host on which every call succeeds and the entropy source fills every request, a
  PCI device, and the instance that \<open>virtio_rnd_init\<close> with the option \<open>kernel=on\<close> and
  then the handshake leave on that host, with a given status. They are the concrete
  inputs of the closed checks below.
\<close>

definition host_example :: env where
  "host_example =
     \<lparr> VIRTIO_CR_STATUS_DRIVER_OK = 4, VIRTIO_MSI_NO_VECTOR = 65535, VBS_NAME_LEN = 32,
       VBS_MAX_VQ_CNT = 10, fbsdrun_virtio_msix = True,
       os_open = (\<lambda>tr path. if path = ''/dev/random'' then 3 else 4),
       os_read = (\<lambda>tr fd n. Read_bytes n),
       os_calloc = (\<lambda>tr. True),
       virtio_interrupt_init = (\<lambda>tr msix. 0),
       virtio_reset_dev = (\<lambda>b q. (b\<lparr>vb_negotiated_caps := 0\<rparr>, q\<lparr>vq_pfn := 0, vq_msix_idx := 65535\<rparr>)),
       vbs_kernel_start = (\<lambda>tr fd kdev kvqs. 0),
       vbs_kernel_stop = (\<lambda>tr fd. 0),
       vbs_kernel_reset = (\<lambda>tr fd. 0) \<rparr>"

definition dev_example :: pci_vdev where
  "dev_example =
     \<lparr> pd_vmid = 1, pd_bar0_addr = 8192,
       pd_msix_table = (\<lambda>j. \<lparr> mte_addr = 4276092928, mte_msg_data = 65 \<rparr>) \<rparr>"

definition kdev_example :: vbs_dev_info where
  "kdev_example =
     \<lparr> kd_name = ''virtio_rnd'', kd_vmid = 1, kd_nvq = 1, kd_negotiated_features = 0,
       kd_pio_range_start = 8208, kd_pio_range_len = 2 \<rparr>"

definition kvqs_example :: vbs_vqs_info where
  "kvqs_example =
     \<lparr> kvs_nvq = 1,
       kvs_vqs = (replicate 10 vbs_vq_info_zero)[0 :=
         \<lparr> kq_qsize = 64, kq_pfn = 0, kq_msix_idx = 0, kq_msix_addr = 4276092928,
           kq_msix_data = 65 \<rparr>] \<rparr>"

definition rnd_example :: "VBS_K_STATUS \<Rightarrow> virtio_rnd" where
  "rnd_example st =
     \<lparr> rnd_base = \<lparr> vb_vops = Some virtio_rnd_ops_k, vb_dev = Some dev_example,
                    vb_negotiated_caps = 0 \<rparr>,
       rnd_vq = \<lparr> vq_qsize = 64, vq_pfn = 0, vq_msix_idx = 0, vq_pending = [],
                  vq_released = [], vq_batch = 0 \<rparr>,
       rnd_mtx = Some PTHREAD_MUTEX_DEFAULT, rnd_cfg = 0, rnd_fd = 3,
       vbs_k_status = st, vbs_k_fd = 4, vbs_k_dev = kdev_example, vbs_k_vqs = kvqs_example \<rparr>"

definition rnd_attached_example :: virtio_rnd where
  "rnd_attached_example =
     (rnd_example VIRTIO_DEV_INIT_SUCCESS)
       \<lparr>vbs_k_dev := vbs_dev_info_zero, vbs_k_vqs := vbs_vqs_info_zero host_example\<rparr>"

definition tr_attached_example :: "event list" where
  "tr_attached_example =
     [Ev_open ''/dev/random'' 3, Ev_read 3 1 1, Ev_calloc True,
      Ev_virtio_linkup virtio_rnd_ops_k, Ev_open ''/dev/vbs_rng'' 4,
      Ev_pci_set_cfgdata 16 ''PCIR_DEVICE'' ''VIRTIO_DEV_RANDOM'',
      Ev_pci_set_cfgdata 16 ''PCIR_VENDOR'' ''VIRTIO_VENDOR'',
      Ev_pci_set_cfgdata 8 ''PCIR_CLASS'' ''PCIC_CRYPTO'',
      Ev_pci_set_cfgdata 16 ''PCIR_SUBDEV_0'' ''VIRTIO_TYPE_ENTROPY'',
      Ev_pci_set_cfgdata 16 ''PCIR_SUBVEND_0'' ''VIRTIO_VENDOR'',
      Ev_virtio_interrupt_init True 0, Ev_virtio_set_io_bar 0]"

definition tr_started_example :: "event list" where
  "tr_started_example =
     tr_attached_example @ [Ev_vbs_kernel_start 4 kdev_example kvqs_example 0]"

text \<open>A queue with the given chains pending, on an instance of the user-space backend.\<close>

definition vq_example :: "chain list \<Rightarrow> virtio_vq_info" where
  "vq_example cs =
     \<lparr> vq_qsize = 64, vq_pfn = 0, vq_msix_idx = 0, vq_pending = cs, vq_released = [],
       vq_batch = 0 \<rparr>"

definition chain_example :: "nat \<Rightarrow> nat \<Rightarrow> chain" where
  "chain_example i B = \<lparr> ch_idx = of_nat i, ch_iov = \<lparr> iov_base = 4096, iov_len = B \<rparr> \<rparr>"


text \<open>The same host, but the registration of interrupt delivery fails.\<close>

definition host_irq_fails_example :: env where
  "host_irq_fails_example =
     host_example\<lparr>virtio_interrupt_init := (\<lambda>tr msix. 1)\<rparr>"

text \<open>The same host, but the entropy source has nothing to give.\<close>

definition host_unseeded_example :: env where
  "host_unseeded_example =
     host_example\<lparr>os_read := (\<lambda>tr fd n. Read_failed)\<rparr>"

definition tr_irq_fails_example :: "event list" where
  "tr_irq_fails_example =
     [Ev_open ''/dev/random'' 3, Ev_read 3 1 1, Ev_calloc True,
      Ev_virtio_linkup virtio_rnd_ops_k, Ev_open ''/dev/vbs_rng'' 4,
      Ev_pci_set_cfgdata 16 ''PCIR_DEVICE'' ''VIRTIO_DEV_RANDOM'',
      Ev_pci_set_cfgdata 16 ''PCIR_VENDOR'' ''VIRTIO_VENDOR'',
      Ev_pci_set_cfgdata 8 ''PCIR_CLASS'' ''PCIC_CRYPTO'',
      Ev_pci_set_cfgdata 16 ''PCIR_SUBDEV_0'' ''VIRTIO_TYPE_ENTROPY'',
      Ev_pci_set_cfgdata 16 ''PCIR_SUBVEND_0'' ''VIRTIO_VENDOR'',
      Ev_virtio_interrupt_init True 1, Ev_free]"

text \<open>The instance that init leaves on the example host when no option is given.\<close>

definition rnd_user_example :: virtio_rnd where
  "rnd_user_example =
     (rnd_example VIRTIO_DEV_INITIAL)
       \<lparr>rnd_base := \<lparr> vb_vops = Some virtio_rnd_ops, vb_dev = Some dev_example,
                       vb_negotiated_caps = 0 \<rparr>,
        vbs_k_fd := 0, vbs_k_dev := vbs_dev_info_zero,
        vbs_k_vqs := vbs_vqs_info_zero host_example\<rparr>"



section \<open>Properties\<close>

declare virtio_rnd_k_set_status_loop.simps [simp del]
declare virtio_rnd_notify_loop.simps [simp del]
declare virtio_rnd_init_opts.simps [simp del]
declare opt_tokens.simps [simp del]

subsection \<open>Reset\<close>

lemma virtio_rnd_reset_started:
  assumes "vbs_k_status rnd = VIRTIO_DEV_STARTED"
  shows "vbs_k_status (fst (virtio_rnd_reset e rnd tr)) = VIRTIO_DEV_INITIAL"
    and "vbs_k_dev (fst (virtio_rnd_reset e rnd tr)) = vbs_dev_info_zero"
    and "vbs_k_vqs (fst (virtio_rnd_reset e rnd tr)) = vbs_vqs_info_zero e"
  using assms
  by (simp_all add: virtio_rnd_reset_def virtio_rnd_kernel_reset_def
        virtio_rnd_kernel_stop_def Let_def)

lemma virtio_rnd_reset_other:
  assumes "vbs_k_status rnd \<noteq> VIRTIO_DEV_STARTED"
  shows "vbs_k_status (fst (virtio_rnd_reset e rnd tr)) = vbs_k_status rnd"
    and "vbs_k_dev (fst (virtio_rnd_reset e rnd tr)) = vbs_k_dev rnd"
    and "vbs_k_vqs (fst (virtio_rnd_reset e rnd tr)) = vbs_k_vqs rnd"
  using assms
  by (simp_all add: virtio_rnd_reset_def Let_def)

text \<open>
  C1, as the code has it. The claim is that reset leaves the session in INITIAL with
  both descriptor records zeroed whatever the status was. The code does that only from
  STARTED (the test of line 297): from STARTED, reset leaves the status INITIAL and
  the device-descriptor record and the per-queue records zeroed; from every other
  status, reset leaves the status and both records as they were.
\<close>

theorem virtio_rnd_reset_session:
  "(vbs_k_status rnd = VIRTIO_DEV_STARTED \<longrightarrow>
      vbs_k_status (fst (virtio_rnd_reset e rnd tr)) = VIRTIO_DEV_INITIAL
    \<and> vbs_k_dev (fst (virtio_rnd_reset e rnd tr)) = vbs_dev_info_zero
    \<and> vbs_k_vqs (fst (virtio_rnd_reset e rnd tr)) = vbs_vqs_info_zero e)
 \<and> (vbs_k_status rnd \<noteq> VIRTIO_DEV_STARTED \<longrightarrow>
      vbs_k_status (fst (virtio_rnd_reset e rnd tr)) = vbs_k_status rnd
    \<and> vbs_k_dev (fst (virtio_rnd_reset e rnd tr)) = vbs_k_dev rnd
    \<and> vbs_k_vqs (fst (virtio_rnd_reset e rnd tr)) = vbs_k_vqs rnd)"
  using virtio_rnd_reset_started [of rnd e tr] virtio_rnd_reset_other [of rnd e tr]
  by blast

theorem virtio_rnd_reset_session_witness:
  "vbs_k_status (rnd_example VIRTIO_DEV_STARTED) = VIRTIO_DEV_STARTED
 \<and> vbs_k_status (fst (virtio_rnd_reset host_example (rnd_example VIRTIO_DEV_STARTED) []))
      = VIRTIO_DEV_INITIAL
 \<and> vbs_k_dev (fst (virtio_rnd_reset host_example (rnd_example VIRTIO_DEV_STARTED) []))
      = vbs_dev_info_zero
 \<and> vbs_k_vqs (fst (virtio_rnd_reset host_example (rnd_example VIRTIO_DEV_STARTED) []))
      = vbs_vqs_info_zero host_example
 \<and> vbs_k_status (rnd_example VIRTIO_DEV_INIT_FAILED) \<noteq> VIRTIO_DEV_STARTED
 \<and> vbs_k_status (fst (virtio_rnd_reset host_example (rnd_example VIRTIO_DEV_INIT_FAILED) []))
      = VIRTIO_DEV_INIT_FAILED
 \<and> vbs_k_dev (fst (virtio_rnd_reset host_example (rnd_example VIRTIO_DEV_INIT_FAILED) []))
      = kdev_example
 \<and> vbs_k_vqs (fst (virtio_rnd_reset host_example (rnd_example VIRTIO_DEV_INIT_FAILED) []))
      = kvqs_example"
  using virtio_rnd_reset_session [of "rnd_example VIRTIO_DEV_STARTED" host_example "[]"]
    virtio_rnd_reset_session [of "rnd_example VIRTIO_DEV_INIT_FAILED" host_example "[]"]
  by (simp add: rnd_example_def)

text \<open>
  The claim C1 as stated fails: an instance whose start failed keeps the status
  START\_FAILED and the records that the handshake filled in when it is reset.
\<close>

theorem virtio_rnd_reset_counterexample:
  "vbs_k_status (fst (virtio_rnd_reset host_example (rnd_example VIRTIO_DEV_START_FAILED) []))
      \<noteq> VIRTIO_DEV_INITIAL
 \<and> vbs_k_dev (fst (virtio_rnd_reset host_example (rnd_example VIRTIO_DEV_START_FAILED) []))
      \<noteq> vbs_dev_info_zero
 \<and> vbs_k_vqs (fst (virtio_rnd_reset host_example (rnd_example VIRTIO_DEV_START_FAILED) []))
      \<noteq> vbs_vqs_info_zero host_example"
  by (simp add: virtio_rnd_reset_def Let_def host_example_def rnd_example_def
        kdev_example_def kvqs_example_def vbs_dev_info_zero_def vbs_vqs_info_zero_def)

subsection \<open>The status write and the handshake\<close>

lemma vq_set_negative:
  "rc_negative (fst (virtio_rnd_kernel_vq_set kvqs nvq idx qsize pfn mi ma md)) \<longleftrightarrow> nvq \<le> idx"
  by (simp add: virtio_rnd_kernel_vq_set_def rc_negative_def)

text \<open>The loop is left early only when a round built a record for an invalid index.\<close>

lemma k_set_status_loop_Inl:
  "virtio_rnd_k_set_status_loop e q dev nvq i ma md kvqs = Inl r \<Longrightarrow>
     rc_negative (fst r) \<and>
     (\<exists>j. i \<le> j \<and> j < nvq \<and> (word_of_int nvq :: 32 word) \<le> word_of_int j)"
proof (induction e q dev nvq i ma md kvqs rule: virtio_rnd_k_set_status_loop.induct)
  case (1 e q dev nvq i ma md kvqs)
  show ?case
  proof (cases "i < nvq")
    case False
    with "1.prems" show ?thesis
      by (simp add: virtio_rnd_k_set_status_loop.simps [of e q dev nvq i])
  next
    case True
    show ?thesis
    proof (cases "(word_of_int nvq :: 32 word) \<le> word_of_int i")
      case bad: True
      with True "1.prems" show ?thesis
        by (auto simp: virtio_rnd_k_set_status_loop.simps [of e q dev nvq i] Let_def
              virtio_rnd_kernel_vq_set_def rc_negative_def)
    next
      case ok: False
      have step: "virtio_rnd_k_set_status_loop e q dev nvq (i + 1)
           (if vq_msix_idx q \<noteq> VIRTIO_MSI_NO_VECTOR e
            then mte_addr (pd_msix_table dev (unat (vq_msix_idx q))) else ma)
           (if vq_msix_idx q \<noteq> VIRTIO_MSI_NO_VECTOR e
            then mte_msg_data (pd_msix_table dev (unat (vq_msix_idx q))) else md)
           (snd (virtio_rnd_kernel_vq_set kvqs (word_of_int nvq) (word_of_int i)
              (vq_qsize q) (vq_pfn q) (vq_msix_idx q)
              (if vq_msix_idx q \<noteq> VIRTIO_MSI_NO_VECTOR e
               then mte_addr (pd_msix_table dev (unat (vq_msix_idx q))) else ma)
              (if vq_msix_idx q \<noteq> VIRTIO_MSI_NO_VECTOR e
               then mte_msg_data (pd_msix_table dev (unat (vq_msix_idx q))) else md))) = Inl r"
        using True ok "1.prems"
        by (simp add: virtio_rnd_k_set_status_loop.simps [of e q dev nvq i] Let_def
              vq_set_negative)
      have "rc_negative (fst r) \<and>
          (\<exists>j. i + 1 \<le> j \<and> j < nvq \<and> (word_of_int nvq :: 32 word) \<le> word_of_int j)"
        using "1.IH" [OF True refl refl refl refl _ step] ok
        by (simp add: vq_set_negative)
      then obtain j where "rc_negative (fst r)" "i + 1 \<le> j" "j < nvq"
          "(word_of_int nvq :: 32 word) \<le> word_of_int j"
        by blast
      then have "rc_negative (fst r) \<and> i \<le> j \<and> j < nvq
          \<and> (word_of_int nvq :: 32 word) \<le> word_of_int j"
        by simp
      then show ?thesis by blast
    qed
  qed
qed

lemma k_set_status_abort:
  assumes "vb_vops (rnd_base rnd) = Some vops" "vb_dev (rnd_base rnd) = Some dev"
    "vbs_k_status rnd = VIRTIO_DEV_INIT_SUCCESS"
    "status AND VIRTIO_CR_STATUS_DRIVER_OK e \<noteq> 0"
    "virtio_rnd_k_set_status_loop e (rnd_vq rnd) dev (vo_nvq vops) 0 0 0 (vbs_k_vqs rnd) = Inl r"
  shows "\<exists>rnd1. virtio_rnd_k_set_status e rnd status tr = Inr (rnd1, tr)
           \<and> vbs_k_status rnd1 = VIRTIO_DEV_INIT_SUCCESS"
  using assms by (simp add: virtio_rnd_k_set_status_def Let_def)

lemma k_set_status_start:
  assumes "vb_vops (rnd_base rnd) = Some vops" "vb_dev (rnd_base rnd) = Some dev"
    "vbs_k_status rnd = VIRTIO_DEV_INIT_SUCCESS"
    "status AND VIRTIO_CR_STATUS_DRIVER_OK e \<noteq> 0"
    "virtio_rnd_k_set_status_loop e (rnd_vq rnd) dev (vo_nvq vops) 0 0 0 (vbs_k_vqs rnd) = Inr kvqs"
  shows "\<exists>rnd1 kdev. virtio_rnd_k_set_status e rnd status tr =
             Inr (rnd1, tr @ [Ev_vbs_kernel_start (vbs_k_fd rnd) kdev kvqs
                                 (vbs_kernel_start e tr (vbs_k_fd rnd) kdev kvqs)])
           \<and> vbs_k_status rnd1 =
               (if vbs_kernel_start e tr (vbs_k_fd rnd) kdev kvqs < 0
                then VIRTIO_DEV_START_FAILED else VIRTIO_DEV_STARTED)"
  using assms
  by (simp add: virtio_rnd_k_set_status_def Let_def virtio_rnd_kernel_start_def rc_negative_def)

text \<open>
  With a queue count that a C \<open>int\<close> can hold, the loop index is always a valid index:
  the early return of line 181 is never taken.
\<close>

lemma k_set_status_loop_no_abort:
  assumes "nvq < 2 ^ 31" "0 \<le> i"
  shows "virtio_rnd_k_set_status_loop e q dev nvq i ma md kvqs \<noteq> Inl r"
proof
  assume "virtio_rnd_k_set_status_loop e q dev nvq i ma md kvqs = Inl r"
  then obtain j where j: "i \<le> j" "j < nvq" "(word_of_int nvq :: 32 word) \<le> word_of_int j"
    using k_set_status_loop_Inl by blast
  have "take_bit 32 nvq = nvq" "take_bit 32 j = j"
    using assms j by (simp_all add: take_bit_int_eq_self)
  with j show False
    by (simp add: word_le_def uint_word_of_int_eq)
qed

lemma attach_example:
  "virtio_rnd_init host_example dev_example (Some ''kernel=on'') []
     = Inr (0, Some rnd_attached_example, tr_attached_example)"
  by (simp add: virtio_rnd_init_def virtio_rnd_init_backend_def virtio_rnd_init_register_def Let_def
     virtio_rnd_init_opts.simps strsep_def strncmp_eq_def host_example_def read_c_def int_of_ssize_def calloc_virtio_rnd_def virtio_rnd_init_vbs_k_def
     virtio_linkup_def virtio_rnd_kernel_init_def rc_negative_def virtio_rnd_init_fallback_def
     virtio_rnd_init_cfg_def rnd_attached_example_def rnd_example_def tr_attached_example_def
     virtio_base_zero_def virtio_vq_info_zero_def VIRTIO_RND_RINGSZ_def)

lemma handshake_example:
  "virtio_rnd_k_set_status host_example rnd_attached_example 4 tr_attached_example
     = Inr (rnd_example VIRTIO_DEV_STARTED, tr_started_example)"
  by (simp add: virtio_rnd_k_set_status_def Let_def virtio_rnd_kernel_start_def rc_negative_def
    host_example_def rnd_attached_example_def rnd_example_def virtio_rnd_ops_k_def dev_example_def
    virtio_rnd_kernel_dev_set_def strncpy_def virtio_rnd_k_set_status_loop.simps
    virtio_rnd_kernel_vq_set_def kdev_example_def kvqs_example_def vbs_vqs_info_zero_def
    tr_started_example_def)











text \<open>
  C10. While the kernel-offload operation table is bound, a status write on an instance
  that is not in INIT\_SUCCESS, or a status write that does not assert the driver-ready
  bit, changes nothing: the function returns the instance as it was (session status,
  device-descriptor record and per-queue records included) and no event is added.
\<close>

theorem virtio_rnd_k_set_status_frame:
  assumes "vb_vops (rnd_base rnd) = Some virtio_rnd_ops_k"
    and "vbs_k_status rnd \<noteq> VIRTIO_DEV_INIT_SUCCESS
         \<or> status AND VIRTIO_CR_STATUS_DRIVER_OK e = 0"
  shows "virtio_rnd_k_set_status e rnd status tr = Inr (rnd, tr)"
  using assms by (auto simp: virtio_rnd_k_set_status_def Let_def)

theorem virtio_rnd_k_set_status_frame_witness:
  "vb_vops (rnd_base (rnd_example VIRTIO_DEV_STARTED)) = Some virtio_rnd_ops_k
 \<and> vbs_k_status (rnd_example VIRTIO_DEV_STARTED) \<noteq> VIRTIO_DEV_INIT_SUCCESS
 \<and> virtio_rnd_k_set_status host_example (rnd_example VIRTIO_DEV_STARTED) 4 tr_started_example
      = Inr (rnd_example VIRTIO_DEV_STARTED, tr_started_example)
 \<and> vb_vops (rnd_base rnd_attached_example) = Some virtio_rnd_ops_k
 \<and> 3 AND VIRTIO_CR_STATUS_DRIVER_OK host_example = 0
 \<and> virtio_rnd_k_set_status host_example rnd_attached_example 3 tr_attached_example
      = Inr (rnd_attached_example, tr_attached_example)"
proof -
  have h1: "vb_vops (rnd_base (rnd_example VIRTIO_DEV_STARTED)) = Some virtio_rnd_ops_k"
    and h2: "vbs_k_status (rnd_example VIRTIO_DEV_STARTED) \<noteq> VIRTIO_DEV_INIT_SUCCESS"
    and h3: "vb_vops (rnd_base rnd_attached_example) = Some virtio_rnd_ops_k"
    by (simp_all add: rnd_attached_example_def rnd_example_def)
  have h4: "3 AND VIRTIO_CR_STATUS_DRIVER_OK host_example = 0"
    by (simp add: host_example_def)
  from h1 h2 h3 h4
    virtio_rnd_k_set_status_frame [OF h1 disjI1 [OF h2],
      where status = 4 and e = host_example and tr = tr_started_example]
    virtio_rnd_k_set_status_frame [OF h3 disjI2 [OF h4], where tr = tr_attached_example]
  show ?thesis by blast
qed

subsection \<open>The option string\<close>

text \<open>
  What the loop computes: \<open>kstat\<close> becomes PRE\_INIT as soon as one token has a value
  that begins with \<open>on\<close>, and is never set back.
\<close>

lemma init_opts_tokens:
  "virtio_rnd_init_opts opts k =
     (if \<exists>t \<in> set (opt_tokens opts). token_on t then VIRTIO_DEV_PRE_INIT else k)"
proof (induction opts k rule: virtio_rnd_init_opts.induct)
  case (1 opts kstat)
  obtain t o1 where s: "strsep opts '','' = (t, o1)" by (cases "strsep opts '',''")
  show ?case
  proof (cases t)
    case None
    with s show ?thesis
      by (simp add: virtio_rnd_init_opts.simps [of opts] opt_tokens.simps [of opts])
  next
    case (Some tok)
    obtain v o2 where s2: "strsep (Some tok) ''='' = (v, o2)"
      by (cases "strsep (Some tok) ''=''")
    show ?thesis
    proof (cases o2)
      case None
      from "1.IH"(1) [OF s [symmetric] Some s2 [symmetric] None] s Some s2 None
      show ?thesis
        by (simp add: virtio_rnd_init_opts.simps [of opts] opt_tokens.simps [of opts]
              token_on_def)
    next
      case (Some opt)
      from "1.IH"(2) [OF s [symmetric] \<open>t = Some tok\<close> s2 [symmetric] Some]
        s \<open>t = Some tok\<close> s2 Some
      show ?thesis
        by (simp add: virtio_rnd_init_opts.simps [of opts] opt_tokens.simps [of opts]
              token_on_def)
    qed
  qed
qed

lemma init_opts_cases:
  "virtio_rnd_init_opts opts VIRTIO_DEV_INITIAL = VIRTIO_DEV_INITIAL
 \<or> virtio_rnd_init_opts opts VIRTIO_DEV_INITIAL = VIRTIO_DEV_PRE_INIT"
  by (simp add: init_opts_tokens)

subsection \<open>Init\<close>

lemma read_c_range: "- 1 \<le> read_c e tr fd n" "read_c e tr fd n \<le> int n"
  by (simp_all add: read_c_def split: read_result.splits)

lemma int_of_ssize_id: "- (2 ^ 31) \<le> r \<Longrightarrow> r < 2 ^ 31 \<Longrightarrow> int_of_ssize r = r"
  by (simp add: int_of_ssize_def)

lemma read_c_len: "n < 2 ^ 31 \<Longrightarrow> int_of_ssize (read_c e tr fd n) = read_c e tr fd n"
  using read_c_range [of e tr fd n] by (intro int_of_ssize_id) simp_all

lemma probe_len: "int_of_ssize (read_c e tr fd (Suc 0)) = read_c e tr fd (Suc 0)"
  by (simp add: read_c_len)

lemma init_backend_initial:
  "\<exists>rnd. virtio_rnd_init_backend e dev VIRTIO_DEV_INITIAL tr
            = Inr (rnd, tr @ [Ev_virtio_linkup virtio_rnd_ops])
     \<and> vbs_k_status rnd = VIRTIO_DEV_INITIAL
     \<and> vb_vops (rnd_base rnd) = Some virtio_rnd_ops
     \<and> vb_dev (rnd_base rnd) = Some dev
     \<and> vbs_k_fd rnd = 0"
  by (simp add: virtio_rnd_init_backend_def virtio_rnd_init_vbs_k_def calloc_virtio_rnd_def
        virtio_rnd_init_fallback_def virtio_linkup_def)

lemma init_backend_pre_init:
  "\<exists>rnd evs. virtio_rnd_init_backend e dev VIRTIO_DEV_PRE_INIT tr = Inr (rnd, tr @ evs)
     \<and> list_all is_setup evs
     \<and> vbs_k_status rnd =
         (if vbs_k_fd rnd < 0 then VIRTIO_DEV_INIT_FAILED else VIRTIO_DEV_INIT_SUCCESS)
     \<and> vb_vops (rnd_base rnd) =
         Some (if vbs_k_fd rnd < 0 then virtio_rnd_ops else virtio_rnd_ops_k)
     \<and> vb_dev (rnd_base rnd) = Some dev
     \<and> vbs_k_dev rnd = vbs_dev_info_zero
     \<and> vbs_k_vqs rnd = vbs_vqs_info_zero e"
  by (simp add: virtio_rnd_init_backend_def virtio_rnd_init_vbs_k_def calloc_virtio_rnd_def
        virtio_rnd_kernel_init_def rc_negative_def Let_def
        virtio_rnd_init_fallback_def virtio_linkup_def)

lemma init_backend:
  assumes "kstat = VIRTIO_DEV_INITIAL \<or> kstat = VIRTIO_DEV_PRE_INIT"
  shows "\<exists>rnd evs. virtio_rnd_init_backend e dev kstat tr = Inr (rnd, tr @ evs)
     \<and> list_all is_setup evs
     \<and> vbs_k_status rnd =
         (if kstat = VIRTIO_DEV_PRE_INIT
          then (if vbs_k_fd rnd < 0 then VIRTIO_DEV_INIT_FAILED else VIRTIO_DEV_INIT_SUCCESS)
          else VIRTIO_DEV_INITIAL)
     \<and> vb_vops (rnd_base rnd) =
         Some (if vbs_k_status rnd = VIRTIO_DEV_INIT_SUCCESS then virtio_rnd_ops_k
               else virtio_rnd_ops)
     \<and> vb_dev (rnd_base rnd) = Some dev
     \<and> vbs_k_dev rnd = vbs_dev_info_zero
     \<and> vbs_k_vqs rnd = vbs_vqs_info_zero e"
  using assms
proof
  assume k: "kstat = VIRTIO_DEV_INITIAL"
  from init_backend_initial [of e dev tr] obtain rnd where
    "virtio_rnd_init_backend e dev VIRTIO_DEV_INITIAL tr
            = Inr (rnd, tr @ [Ev_virtio_linkup virtio_rnd_ops])"
     "vbs_k_status rnd = VIRTIO_DEV_INITIAL"
     "vb_vops (rnd_base rnd) = Some virtio_rnd_ops"
     "vb_dev (rnd_base rnd) = Some dev"
     "vbs_k_fd rnd = 0"
    by blast
  moreover have "vbs_k_dev rnd = vbs_dev_info_zero" "vbs_k_vqs rnd = vbs_vqs_info_zero e"
    using calculation(1)
    by (auto simp add: virtio_rnd_init_backend_def virtio_rnd_init_vbs_k_def calloc_virtio_rnd_def
        virtio_rnd_init_fallback_def virtio_linkup_def)
  ultimately show ?thesis using k
    by (intro exI [of _ rnd] exI [of _ "[Ev_virtio_linkup virtio_rnd_ops]"]) simp
next
  assume k: "kstat = VIRTIO_DEV_PRE_INIT"
  from init_backend_pre_init [of e dev tr] obtain rnd evs where
    r: "virtio_rnd_init_backend e dev VIRTIO_DEV_PRE_INIT tr = Inr (rnd, tr @ evs)"
     "list_all is_setup evs"
     "vbs_k_status rnd =
         (if vbs_k_fd rnd < 0 then VIRTIO_DEV_INIT_FAILED else VIRTIO_DEV_INIT_SUCCESS)"
     "vb_vops (rnd_base rnd) =
         Some (if vbs_k_fd rnd < 0 then virtio_rnd_ops else virtio_rnd_ops_k)"
     "vb_dev (rnd_base rnd) = Some dev"
     "vbs_k_dev rnd = vbs_dev_info_zero"
     "vbs_k_vqs rnd = vbs_vqs_info_zero e"
    by blast
  then show ?thesis using k
    by (intro exI [of _ rnd] exI [of _ evs]) simp
qed

lemma init_probe_fails:
  assumes "0 \<le> os_open e tr ''/dev/random''"
    and "read_c e (tr @ [Ev_open ''/dev/random'' (os_open e tr ''/dev/random'')])
           (os_open e tr ''/dev/random'') 1 \<le> 0"
  shows "virtio_rnd_init e dev opts tr =
     Inr (- 1, None,
          tr @ [Ev_open ''/dev/random'' (os_open e tr ''/dev/random''),
                Ev_read (os_open e tr ''/dev/random'') 1
                  (read_c e (tr @ [Ev_open ''/dev/random'' (os_open e tr ''/dev/random'')])
                     (os_open e tr ''/dev/random'') 1)])"
  using assms by (simp add: virtio_rnd_init_def Let_def probe_len)

lemma init_calloc_fails:
  assumes "0 \<le> os_open e tr ''/dev/random''"
    and "0 < read_c e (tr @ [Ev_open ''/dev/random'' (os_open e tr ''/dev/random'')])
           (os_open e tr ''/dev/random'') 1"
    and "\<not> os_calloc e (tr @ [Ev_open ''/dev/random'' (os_open e tr ''/dev/random''),
                Ev_read (os_open e tr ''/dev/random'') 1
                  (read_c e (tr @ [Ev_open ''/dev/random'' (os_open e tr ''/dev/random'')])
                     (os_open e tr ''/dev/random'') 1)])"
  shows "virtio_rnd_init e dev opts tr =
     Inr (- 1, None,
          tr @ [Ev_open ''/dev/random'' (os_open e tr ''/dev/random''),
                Ev_read (os_open e tr ''/dev/random'') 1
                  (read_c e (tr @ [Ev_open ''/dev/random'' (os_open e tr ''/dev/random'')])
                     (os_open e tr ''/dev/random'') 1),
                Ev_calloc False])"
  using assms by (simp add: virtio_rnd_init_def Let_def probe_len)

lemma init_allocated:
  assumes "0 \<le> os_open e tr ''/dev/random''"
    and "0 < read_c e (tr @ [Ev_open ''/dev/random'' (os_open e tr ''/dev/random'')])
           (os_open e tr ''/dev/random'') 1"
    and "os_calloc e (tr @ [Ev_open ''/dev/random'' (os_open e tr ''/dev/random''),
                Ev_read (os_open e tr ''/dev/random'') 1
                  (read_c e (tr @ [Ev_open ''/dev/random'' (os_open e tr ''/dev/random'')])
                     (os_open e tr ''/dev/random'') 1)])"
  shows "\<exists>rnd evs r.
       virtio_rnd_init e dev opts tr =
         Inr (virtio_rnd_init_register e rnd (os_open e tr ''/dev/random'')
                (tr @ [Ev_open ''/dev/random'' (os_open e tr ''/dev/random''),
                       Ev_read (os_open e tr ''/dev/random'') 1 r, Ev_calloc True] @ evs))
     \<and> list_all is_setup evs
     \<and> vbs_k_status rnd =
         (if virtio_rnd_init_opts opts VIRTIO_DEV_INITIAL = VIRTIO_DEV_PRE_INIT
          then (if vbs_k_fd rnd < 0 then VIRTIO_DEV_INIT_FAILED else VIRTIO_DEV_INIT_SUCCESS)
          else VIRTIO_DEV_INITIAL)
     \<and> vb_vops (rnd_base rnd) =
         Some (if vbs_k_status rnd = VIRTIO_DEV_INIT_SUCCESS then virtio_rnd_ops_k
               else virtio_rnd_ops)
     \<and> vb_dev (rnd_base rnd) = Some dev
     \<and> vbs_k_dev rnd = vbs_dev_info_zero
     \<and> vbs_k_vqs rnd = vbs_vqs_info_zero e"
proof -
  let ?fd = "os_open e tr ''/dev/random''"
  let ?r = "read_c e (tr @ [Ev_open ''/dev/random'' ?fd]) ?fd 1"
  let ?tr3 = "tr @ [Ev_open ''/dev/random'' ?fd, Ev_read ?fd 1 ?r, Ev_calloc True]"
  from init_backend [OF init_opts_cases [of opts], of e dev ?tr3]
  obtain rnd evs where b:
    "virtio_rnd_init_backend e dev (virtio_rnd_init_opts opts VIRTIO_DEV_INITIAL) ?tr3
       = Inr (rnd, ?tr3 @ evs)"
    "list_all is_setup evs"
    "vbs_k_status rnd =
         (if virtio_rnd_init_opts opts VIRTIO_DEV_INITIAL = VIRTIO_DEV_PRE_INIT
          then (if vbs_k_fd rnd < 0 then VIRTIO_DEV_INIT_FAILED else VIRTIO_DEV_INIT_SUCCESS)
          else VIRTIO_DEV_INITIAL)"
    "vb_vops (rnd_base rnd) =
         Some (if vbs_k_status rnd = VIRTIO_DEV_INIT_SUCCESS then virtio_rnd_ops_k
               else virtio_rnd_ops)"
    "vb_dev (rnd_base rnd) = Some dev"
    "vbs_k_dev rnd = vbs_dev_info_zero"
    "vbs_k_vqs rnd = vbs_vqs_info_zero e"
    by blast
  have "virtio_rnd_init e dev opts tr =
         Inr (virtio_rnd_init_register e rnd ?fd (?tr3 @ evs))"
    using assms b(1) by (simp add: virtio_rnd_init_def Let_def probe_len)
  with b show ?thesis by (intro exI [of _ rnd] exI [of _ evs] exI [of _ ?r]) simp
qed

lemma init_attached:
  assumes "virtio_rnd_init e dev opts tr = Inr (rc, Some rnd, tr1)"
  shows "rc = 0
    \<and> vbs_k_status rnd =
         (if virtio_rnd_init_opts opts VIRTIO_DEV_INITIAL = VIRTIO_DEV_PRE_INIT
          then (if vbs_k_fd rnd < 0 then VIRTIO_DEV_INIT_FAILED else VIRTIO_DEV_INIT_SUCCESS)
          else VIRTIO_DEV_INITIAL)
    \<and> vb_vops (rnd_base rnd) =
         Some (if vbs_k_status rnd = VIRTIO_DEV_INIT_SUCCESS then virtio_rnd_ops_k
               else virtio_rnd_ops)
    \<and> vb_dev (rnd_base rnd) = Some dev
    \<and> vbs_k_dev rnd = vbs_dev_info_zero
    \<and> vbs_k_vqs rnd = vbs_vqs_info_zero e
    \<and> rnd_fd rnd = os_open e tr ''/dev/random''
    \<and> 0 \<le> rnd_fd rnd"
proof -
  let ?fd = "os_open e tr ''/dev/random''"
  let ?r = "read_c e (tr @ [Ev_open ''/dev/random'' ?fd]) ?fd 1"
  have fd: "0 \<le> ?fd"
    using assms by (rule_tac ccontr) (simp add: virtio_rnd_init_def Let_def)
  have r: "0 < ?r"
    using assms init_probe_fails [OF fd, of dev opts] by (rule_tac ccontr) simp
  have c: "os_calloc e (tr @ [Ev_open ''/dev/random'' ?fd, Ev_read ?fd 1 ?r])"
    using assms init_calloc_fails [OF fd r, of dev opts] by (rule_tac ccontr) simp
  from init_allocated [OF fd r c, of dev opts] assms
  obtain rnd0 trx where
    reg: "virtio_rnd_init_register e rnd0 ?fd trx = (rc, Some rnd, tr1)"
    and p: "vbs_k_status rnd0 =
         (if virtio_rnd_init_opts opts VIRTIO_DEV_INITIAL = VIRTIO_DEV_PRE_INIT
          then (if vbs_k_fd rnd0 < 0 then VIRTIO_DEV_INIT_FAILED else VIRTIO_DEV_INIT_SUCCESS)
          else VIRTIO_DEV_INITIAL)"
     "vb_vops (rnd_base rnd0) =
         Some (if vbs_k_status rnd0 = VIRTIO_DEV_INIT_SUCCESS then virtio_rnd_ops_k
               else virtio_rnd_ops)"
     "vb_dev (rnd_base rnd0) = Some dev"
     "vbs_k_dev rnd0 = vbs_dev_info_zero"
     "vbs_k_vqs rnd0 = vbs_vqs_info_zero e"
    by auto
  from reg have "rc = 0"
      "rnd = rnd0\<lparr>rnd_vq := (rnd_vq rnd0)\<lparr>vq_qsize := VIRTIO_RND_RINGSZ\<rparr>, rnd_fd := ?fd\<rparr>"
    by (auto simp: virtio_rnd_init_register_def Let_def split: if_splits)
  with p fd show ?thesis by simp
qed

lemma is_setup_mem: "list_all is_setup evs \<Longrightarrow> ev \<in> set evs \<Longrightarrow> is_setup ev"
  by (simp add: list_all_iff)

text \<open>
  C7, as the code has it. The claim is that every resource acquired earlier in init is
  released when the registration of interrupt delivery fails. What init does then: it
  returns failure, attaches no device, and frees the device instance that it had
  allocated, as its last action.
\<close>

theorem virtio_rnd_init_irq_fails:
  assumes "virtio_rnd_init e dev opts tr = Inr (rc, inst, tr @ evs)"
    and "Ev_virtio_interrupt_init m r \<in> set evs"
    and "r \<noteq> 0"
  shows "rc = - 1 \<and> inst = None
     \<and> (\<exists>evs0. evs = evs0 @ [Ev_free] \<and> Ev_calloc True \<in> set evs0 \<and> Ev_free \<notin> set evs0)"
proof -
  let ?fd = "os_open e tr ''/dev/random''"
  let ?r = "read_c e (tr @ [Ev_open ''/dev/random'' ?fd]) ?fd 1"
  have fd: "0 \<le> ?fd"
    using assms(1) by (rule_tac ccontr) (simp add: virtio_rnd_init_def Let_def)
  have r: "0 < ?r"
    using assms(1,2) init_probe_fails [OF fd, of dev opts] by (rule_tac ccontr) auto
  have c: "os_calloc e (tr @ [Ev_open ''/dev/random'' ?fd, Ev_read ?fd 1 ?r])"
    using assms(1,2) init_calloc_fails [OF fd r, of dev opts] by (rule_tac ccontr) auto
  from init_allocated [OF fd r c, of dev opts] assms(1)
  obtain rnd0 evs1 r1 where
    reg: "virtio_rnd_init_register e rnd0 ?fd
            (tr @ [Ev_open ''/dev/random'' ?fd, Ev_read ?fd 1 r1, Ev_calloc True] @ evs1)
          = (rc, inst, tr @ evs)"
    and s: "list_all is_setup evs1"
    by auto
  have no: "Ev_virtio_interrupt_init m r \<notin> set evs1" "Ev_free \<notin> set evs1"
    using is_setup_mem [OF s, of "Ev_virtio_interrupt_init m r"] is_setup_mem [OF s, of Ev_free]
    by auto
  let ?x = "virtio_interrupt_init e
       (virtio_rnd_init_cfg
          (tr @ [Ev_open ''/dev/random'' ?fd, Ev_read ?fd 1 r1, Ev_calloc True] @ evs1))
       (fbsdrun_virtio_msix e)"
  show ?thesis
  proof (cases "?x = 0")
    case True
    with reg have "evs = [Ev_open ''/dev/random'' ?fd, Ev_read ?fd 1 r1, Ev_calloc True] @ evs1
        @ virtio_rnd_init_cfg [] @ [Ev_virtio_interrupt_init (fbsdrun_virtio_msix e) 0,
             Ev_virtio_set_io_bar 0]"
      by (simp add: virtio_rnd_init_register_def Let_def virtio_rnd_init_cfg_def)
    with assms(2,3) no show ?thesis
      by (simp add: virtio_rnd_init_cfg_def)
  next
    case False
    with reg have e: "evs = ([Ev_open ''/dev/random'' ?fd, Ev_read ?fd 1 r1, Ev_calloc True] @ evs1
        @ virtio_rnd_init_cfg [] @ [Ev_virtio_interrupt_init (fbsdrun_virtio_msix e) ?x])
        @ [Ev_free]" and "rc = - 1" "inst = None"
      by (simp_all add: virtio_rnd_init_register_def Let_def virtio_rnd_init_cfg_def)
    moreover have "Ev_calloc True \<in> set ([Ev_open ''/dev/random'' ?fd, Ev_read ?fd 1 r1, Ev_calloc True] @ evs1
        @ virtio_rnd_init_cfg [] @ [Ev_virtio_interrupt_init (fbsdrun_virtio_msix e) ?x])"
      "Ev_free \<notin> set ([Ev_open ''/dev/random'' ?fd, Ev_read ?fd 1 r1, Ev_calloc True] @ evs1
        @ virtio_rnd_init_cfg [] @ [Ev_virtio_interrupt_init (fbsdrun_virtio_msix e) ?x])"
      using no by (simp_all add: virtio_rnd_init_cfg_def)
    ultimately show ?thesis by blast
  qed
qed

lemma irq_fails_example:
  "virtio_rnd_init host_irq_fails_example dev_example (Some ''kernel=on'') []
     = Inr (- 1, None, tr_irq_fails_example)"
  by (simp add: virtio_rnd_init_def virtio_rnd_init_backend_def virtio_rnd_init_register_def
     Let_def virtio_rnd_init_opts.simps strsep_def strncmp_eq_def host_example_def
     host_irq_fails_example_def read_c_def int_of_ssize_def calloc_virtio_rnd_def
     virtio_rnd_init_vbs_k_def virtio_linkup_def virtio_rnd_kernel_init_def rc_negative_def
     virtio_rnd_init_fallback_def virtio_rnd_init_cfg_def tr_irq_fails_example_def)

theorem virtio_rnd_init_irq_fails_witness:
  "virtio_rnd_init host_irq_fails_example dev_example (Some ''kernel=on'') []
     = Inr (- 1, None, [] @ tr_irq_fails_example)
 \<and> Ev_virtio_interrupt_init True 1 \<in> set tr_irq_fails_example
 \<and> (1 :: int) \<noteq> 0
 \<and> (\<exists>evs0. tr_irq_fails_example = evs0 @ [Ev_free] \<and> Ev_calloc True \<in> set evs0
        \<and> Ev_free \<notin> set evs0)"
proof -
  have h1: "virtio_rnd_init host_irq_fails_example dev_example (Some ''kernel=on'') []
     = Inr (- 1, None, [] @ tr_irq_fails_example)"
    by (simp add: irq_fails_example)
  have h2: "Ev_virtio_interrupt_init True 1 \<in> set tr_irq_fails_example"
    by (simp add: tr_irq_fails_example_def)
  have h3: "(1 :: int) \<noteq> 0" by simp
  from virtio_rnd_init_irq_fails [OF h1 h2 h3] h1 h2 h3 show ?thesis by blast
qed

text \<open>
  The claim C7 as stated fails: with the option \<open>kernel=on\<close>, on a host where only the
  registration of interrupt delivery fails, init has opened the entropy source
  (descriptor 3) and the control channel (descriptor 4) and returns without closing
  either.
\<close>

theorem virtio_rnd_init_irq_fails_counterexample:
  "virtio_rnd_init host_irq_fails_example dev_example (Some ''kernel=on'') []
     = Inr (- 1, None, tr_irq_fails_example)
 \<and> Ev_open ''/dev/random'' 3 \<in> set tr_irq_fails_example
 \<and> Ev_open ''/dev/vbs_rng'' 4 \<in> set tr_irq_fails_example
 \<and> Ev_close 3 \<notin> set tr_irq_fails_example
 \<and> Ev_close 4 \<notin> set tr_irq_fails_example"
  by (simp add: irq_fails_example) (simp add: tr_irq_fails_example_def)

text \<open>
  C6. Once the entropy source is open: if the probe read returns zero or a negative
  count, init returns -1 with no device instance, and its only events are the open and
  the read (nothing is allocated). If the probe read returns a positive count, init
  returns a value, with a device instance exactly when the value is 0, and when it
  returns a failure then the allocation failed or the registration of interrupt
  delivery did.
\<close>

theorem virtio_rnd_init_probe:
  assumes "0 \<le> os_open e tr ''/dev/random''"
  shows "let fd = os_open e tr ''/dev/random'';
             tr1 = tr @ [Ev_open ''/dev/random'' fd];
             r = read_c e tr1 fd 1
         in (r \<le> 0 \<longrightarrow>
               virtio_rnd_init e dev opts tr = Inr (- 1, None, tr1 @ [Ev_read fd 1 r]))
          \<and> (0 < r \<longrightarrow>
               (\<exists>rc inst tr2. virtio_rnd_init e dev opts tr = Inr (rc, inst, tr2)
                  \<and> (rc = 0 \<longleftrightarrow> inst \<noteq> None)
                  \<and> (rc \<noteq> 0 \<longrightarrow>
                        \<not> os_calloc e (tr1 @ [Ev_read fd 1 r])
                      \<or> (\<exists>h. virtio_interrupt_init e h (fbsdrun_virtio_msix e) \<noteq> 0))))"
proof -
  let ?fd = "os_open e tr ''/dev/random''"
  let ?r = "read_c e (tr @ [Ev_open ''/dev/random'' ?fd]) ?fd 1"
  have a: "virtio_rnd_init e dev opts tr
      = Inr (- 1, None, tr @ [Ev_open ''/dev/random'' ?fd, Ev_read ?fd 1 ?r])" if "?r \<le> 0"
    using init_probe_fails [OF assms that] .
  have b: "\<exists>rc inst tr2. virtio_rnd_init e dev opts tr = Inr (rc, inst, tr2)
                  \<and> (rc = 0 \<longleftrightarrow> inst \<noteq> None)
                  \<and> (rc \<noteq> 0 \<longrightarrow>
                        \<not> os_calloc e (tr @ [Ev_open ''/dev/random'' ?fd, Ev_read ?fd 1 ?r])
                      \<or> (\<exists>h. virtio_interrupt_init e h (fbsdrun_virtio_msix e) \<noteq> 0))"
    if r: "0 < ?r"
  proof (cases "os_calloc e (tr @ [Ev_open ''/dev/random'' ?fd, Ev_read ?fd 1 ?r])")
    case False
    from init_calloc_fails [OF assms r False, of dev opts] False show ?thesis by simp
  next
    case True
    from init_allocated [OF assms r True, of dev opts] obtain rnd trx where
      i: "virtio_rnd_init e dev opts tr
            = Inr (virtio_rnd_init_register e rnd ?fd trx)"
      by blast
    show ?thesis
    proof (cases "virtio_interrupt_init e (virtio_rnd_init_cfg trx) (fbsdrun_virtio_msix e) = 0")
      case z: True
      with i show ?thesis by (simp add: virtio_rnd_init_register_def Let_def)
    next
      case nz: False
      with i show ?thesis by (auto simp add: virtio_rnd_init_register_def Let_def)
    qed
  qed
  from a b show ?thesis by (simp add: Let_def)
qed

theorem virtio_rnd_init_probe_witness:
  "0 \<le> os_open host_unseeded_example [] ''/dev/random''
 \<and> read_c host_unseeded_example [Ev_open ''/dev/random'' 3] 3 1 \<le> 0
 \<and> virtio_rnd_init host_unseeded_example dev_example (Some ''kernel=on'') []
      = Inr (- 1, None, [Ev_open ''/dev/random'' 3, Ev_read 3 1 (- 1)])
 \<and> 0 \<le> os_open host_example [] ''/dev/random''
 \<and> 0 < read_c host_example [Ev_open ''/dev/random'' 3] 3 1
 \<and> (\<exists>rc inst tr2. virtio_rnd_init host_example dev_example (Some ''kernel=on'') []
        = Inr (rc, inst, tr2) \<and> (rc = 0 \<longleftrightarrow> inst \<noteq> None))"
proof -
  have o1: "os_open host_unseeded_example [] ''/dev/random'' = 3"
    and o2: "os_open host_example [] ''/dev/random'' = 3"
    by (simp_all add: host_unseeded_example_def host_example_def)
  have r1: "read_c host_unseeded_example [Ev_open ''/dev/random'' 3] 3 (Suc 0) = - 1"
    and r2: "read_c host_example [Ev_open ''/dev/random'' 3] 3 (Suc 0) = 1"
    by (simp_all add: read_c_def host_unseeded_example_def host_example_def)
  have h1: "0 \<le> os_open host_unseeded_example [] ''/dev/random''"
    and h2: "0 \<le> os_open host_example [] ''/dev/random''"
    by (simp_all add: o1 o2)
  from virtio_rnd_init_probe [OF h1, of dev_example "Some ''kernel=on''"]
  have a: "virtio_rnd_init host_unseeded_example dev_example (Some ''kernel=on'') []
      = Inr (- 1, None, [Ev_open ''/dev/random'' 3, Ev_read 3 1 (- 1)])"
    by (simp add: Let_def o1 r1)
  from virtio_rnd_init_probe [OF h2, of dev_example "Some ''kernel=on''"]
  have b: "\<exists>rc inst tr2. virtio_rnd_init host_example dev_example (Some ''kernel=on'') []
        = Inr (rc, inst, tr2) \<and> (rc = 0 \<longleftrightarrow> inst \<noteq> None)"
    by (simp add: Let_def o2 r2) blast
  from h1 h2 a b show ?thesis by (simp add: r1 r2)
qed

subsection \<open>The option string and the backend\<close>










subsection \<open>Steps of an instance, and deinit\<close>

lemma k_set_status_step:
  assumes "virtio_rnd_k_set_status e rnd status tr = Inr (rnd1, tr1)"
  shows "vbs_k_fd rnd1 = vbs_k_fd rnd
    \<and> (vbs_k_status rnd1 = vbs_k_status rnd
       \<or> (vbs_k_status rnd = VIRTIO_DEV_INIT_SUCCESS
          \<and> status AND VIRTIO_CR_STATUS_DRIVER_OK e \<noteq> 0
          \<and> (vbs_k_status rnd1 = VIRTIO_DEV_STARTED
             \<or> vbs_k_status rnd1 = VIRTIO_DEV_START_FAILED)))"
  using assms
  by (auto simp: virtio_rnd_k_set_status_def Let_def
        split: option.splits if_splits sum.splits)

lemma reset_step:
  "vbs_k_fd (fst (virtio_rnd_reset e rnd tr)) = vbs_k_fd rnd
    \<and> vbs_k_status (fst (virtio_rnd_reset e rnd tr)) =
        (if vbs_k_status rnd = VIRTIO_DEV_STARTED then VIRTIO_DEV_INITIAL else vbs_k_status rnd)"
  by (simp add: virtio_rnd_reset_def virtio_rnd_kernel_reset_def virtio_rnd_kernel_stop_def
        Let_def)

lemma dm_step_status:
  assumes "dm_step e (rnd, tr) x = Inr (rnd1, tr1)"
  shows "vbs_k_fd rnd1 = vbs_k_fd rnd
    \<and> (vbs_k_status rnd1 = vbs_k_status rnd
       \<or> (vbs_k_status rnd = VIRTIO_DEV_INIT_SUCCESS
          \<and> (vbs_k_status rnd1 = VIRTIO_DEV_STARTED
             \<or> vbs_k_status rnd1 = VIRTIO_DEV_START_FAILED)
          \<and> (\<exists>status. x = Op_set_status status
                \<and> status AND VIRTIO_CR_STATUS_DRIVER_OK e \<noteq> 0))
       \<or> (vbs_k_status rnd = VIRTIO_DEV_STARTED \<and> vbs_k_status rnd1 = VIRTIO_DEV_INITIAL
          \<and> x = Op_reset))"
proof (cases x)
  case (Op_set_status status)
  with assms k_set_status_step [of e rnd status tr rnd1 tr1] show ?thesis by auto
next
  case Op_reset
  with assms reset_step [of e rnd tr] show ?thesis by (auto split: if_splits)
next
  case Op_notify
  with assms show ?thesis by (auto split: sum.splits)
next
  case Op_k_no_notify
  with assms show ?thesis by (auto simp: virtio_rnd_k_no_notify_def)
next
  case (Op_transport f)
  with assms show ?thesis by (auto split: prod.splits)
qed

text \<open>
  The control channel is open whenever the session got as far as INIT\_SUCCESS: the
  assertion of line 465 holds on every instance that exists.
\<close>

lemma reachable_fd:
  "reachable e s \<Longrightarrow>
     vbs_k_status (fst s) \<in> {VIRTIO_DEV_INIT_SUCCESS, VIRTIO_DEV_STARTED, VIRTIO_DEV_START_FAILED}
     \<Longrightarrow> 0 \<le> vbs_k_fd (fst s)"
proof (induction rule: reachable.induct)
  case (reach_init dev opts tr rnd tr1)
  from init_attached [OF reach_init.hyps] reach_init.prems show ?case
    by (auto split: if_splits)
next
  case (reach_step s x s1)
  obtain rnd tr where s: "s = (rnd, tr)" by (cases s)
  obtain rnd1 tr1 where s1: "s1 = (rnd1, tr1)" by (cases s1)
  from dm_step_status [of e rnd tr x rnd1 tr1] reach_step.hyps(2) s s1
  have "vbs_k_fd rnd1 = vbs_k_fd rnd"
    and "vbs_k_status rnd1 = vbs_k_status rnd
       \<or> vbs_k_status rnd = VIRTIO_DEV_INIT_SUCCESS
       \<or> (vbs_k_status rnd = VIRTIO_DEV_STARTED \<and> vbs_k_status rnd1 = VIRTIO_DEV_INITIAL)"
    by auto
  with reach_step.IH reach_step.prems s s1 show ?case by auto
qed

lemma deinit_started:
  assumes "vbs_k_status rnd = VIRTIO_DEV_STARTED" "0 \<le> vbs_k_fd rnd"
  shows "virtio_rnd_deinit e (Some rnd) tr =
     Inr (Some (rnd\<lparr>vbs_k_dev := vbs_dev_info_zero, vbs_k_vqs := vbs_vqs_info_zero e,
                    vbs_k_status := VIRTIO_DEV_INITIAL, vbs_k_fd := - 1\<rparr>),
          tr @ [Ev_vbs_kernel_stop (vbs_k_fd rnd) (vbs_kernel_stop e tr (vbs_k_fd rnd)),
                Ev_vbs_kernel_reset (vbs_k_fd rnd)
                  (vbs_kernel_reset e
                     (tr @ [Ev_vbs_kernel_stop (vbs_k_fd rnd)
                              (vbs_kernel_stop e tr (vbs_k_fd rnd))])
                     (vbs_k_fd rnd)),
                Ev_close (vbs_k_fd rnd), Ev_free])"
  using assms
  by (simp add: virtio_rnd_deinit_def virtio_rnd_kernel_stop_def virtio_rnd_kernel_reset_def
        Let_def)

lemma deinit_other:
  assumes "vbs_k_status rnd \<noteq> VIRTIO_DEV_STARTED"
  shows "virtio_rnd_deinit e (Some rnd) tr = Inr (Some rnd, tr @ [Ev_free])"
  using assms by (simp add: virtio_rnd_deinit_def)

lemma reachable_example:
  "reachable host_example (rnd_example VIRTIO_DEV_STARTED, tr_started_example)"
proof -
  have "reachable host_example (rnd_attached_example, tr_attached_example)"
    using attach_example by (rule reach_init)
  then show ?thesis
    by (rule reach_step [where x = "Op_set_status 4"]) (simp add: handshake_example)
qed

text \<open>
  C9. Deinit with no device argument changes nothing. On an instance that exists and is
  STARTED, deinit stops the session, resets it (both records zeroed, status INITIAL),
  closes the control channel once, and then frees the instance: these four events, in
  this order, and no other. On an instance that is not STARTED, deinit only frees it:
  no stop, no reset, no close.
\<close>

theorem virtio_rnd_deinit_session:
  "virtio_rnd_deinit e None tr = Inr (None, tr)
 \<and> (reachable e (rnd, tr) \<and> vbs_k_status rnd = VIRTIO_DEV_STARTED \<longrightarrow>
       virtio_rnd_deinit e (Some rnd) tr =
         Inr (Some (rnd\<lparr>vbs_k_dev := vbs_dev_info_zero, vbs_k_vqs := vbs_vqs_info_zero e,
                        vbs_k_status := VIRTIO_DEV_INITIAL, vbs_k_fd := - 1\<rparr>),
              tr @ [Ev_vbs_kernel_stop (vbs_k_fd rnd) (vbs_kernel_stop e tr (vbs_k_fd rnd)),
                    Ev_vbs_kernel_reset (vbs_k_fd rnd)
                      (vbs_kernel_reset e
                         (tr @ [Ev_vbs_kernel_stop (vbs_k_fd rnd)
                                  (vbs_kernel_stop e tr (vbs_k_fd rnd))])
                         (vbs_k_fd rnd)),
                    Ev_close (vbs_k_fd rnd), Ev_free]))
 \<and> (vbs_k_status rnd \<noteq> VIRTIO_DEV_STARTED \<longrightarrow>
       virtio_rnd_deinit e (Some rnd) tr = Inr (Some rnd, tr @ [Ev_free]))"
proof -
  have "virtio_rnd_deinit e None tr = Inr (None, tr)"
    by (simp add: virtio_rnd_deinit_def)
  moreover have "0 \<le> vbs_k_fd rnd"
    if "reachable e (rnd, tr)" "vbs_k_status rnd = VIRTIO_DEV_STARTED"
    using reachable_fd [OF that(1)] that(2) by simp
  ultimately show ?thesis
    using deinit_started [of rnd e tr] deinit_other [of rnd e tr] by blast
qed

theorem virtio_rnd_deinit_session_witness:
  "reachable host_example (rnd_example VIRTIO_DEV_STARTED, tr_started_example)
 \<and> vbs_k_status (rnd_example VIRTIO_DEV_STARTED) = VIRTIO_DEV_STARTED
 \<and> virtio_rnd_deinit host_example (Some (rnd_example VIRTIO_DEV_STARTED)) tr_started_example
     = Inr (Some ((rnd_example VIRTIO_DEV_INITIAL)
                    \<lparr>vbs_k_dev := vbs_dev_info_zero,
                     vbs_k_vqs := vbs_vqs_info_zero host_example, vbs_k_fd := - 1\<rparr>),
            tr_started_example @
              [Ev_vbs_kernel_stop 4 0, Ev_vbs_kernel_reset 4 0, Ev_close 4, Ev_free])
 \<and> vbs_k_status rnd_attached_example \<noteq> VIRTIO_DEV_STARTED
 \<and> virtio_rnd_deinit host_example (Some rnd_attached_example) tr_attached_example
     = Inr (Some rnd_attached_example, tr_attached_example @ [Ev_free])"
proof -
  have st: "vbs_k_status (rnd_example VIRTIO_DEV_STARTED) = VIRTIO_DEV_STARTED"
    and ns: "vbs_k_status rnd_attached_example \<noteq> VIRTIO_DEV_STARTED"
    and fd: "vbs_k_fd (rnd_example VIRTIO_DEV_STARTED) = 4"
    by (simp_all add: rnd_example_def rnd_attached_example_def)
  have eq: "(rnd_example VIRTIO_DEV_STARTED)
       \<lparr>vbs_k_dev := vbs_dev_info_zero, vbs_k_vqs := vbs_vqs_info_zero host_example,
        vbs_k_status := VIRTIO_DEV_INITIAL, vbs_k_fd := - 1\<rparr>
     = (rnd_example VIRTIO_DEV_INITIAL)
       \<lparr>vbs_k_dev := vbs_dev_info_zero, vbs_k_vqs := vbs_vqs_info_zero host_example,
        vbs_k_fd := - 1\<rparr>"
    by (simp add: rnd_example_def)
  have k: "vbs_kernel_stop host_example = (\<lambda>tr fd. 0)"
     "vbs_kernel_reset host_example = (\<lambda>tr fd. 0)"
    by (simp_all add: host_example_def)
  from virtio_rnd_deinit_session [of host_example tr_started_example
      "rnd_example VIRTIO_DEV_STARTED"] reachable_example st
  have a: "virtio_rnd_deinit host_example (Some (rnd_example VIRTIO_DEV_STARTED))
        tr_started_example
     = Inr (Some ((rnd_example VIRTIO_DEV_INITIAL)
                    \<lparr>vbs_k_dev := vbs_dev_info_zero,
                     vbs_k_vqs := vbs_vqs_info_zero host_example, vbs_k_fd := - 1\<rparr>),
            tr_started_example @
              [Ev_vbs_kernel_stop 4 0, Ev_vbs_kernel_reset 4 0, Ev_close 4, Ev_free])"
    by (simp add: fd eq k)
  from virtio_rnd_deinit_session [of host_example tr_attached_example rnd_attached_example] ns
  have b: "virtio_rnd_deinit host_example (Some rnd_attached_example) tr_attached_example
     = Inr (Some rnd_attached_example, tr_attached_example @ [Ev_free])"
    by simp
  from reachable_example st ns a b show ?thesis by blast
qed

subsection \<open>The path of the session status\<close>

lemma dm_step_edge:
  assumes "dm_step e s x = Inr s1"
  shows "vbs_k_status (fst s1) = vbs_k_status (fst s)
       \<or> status_edge (vbs_k_status (fst s)) (vbs_k_status (fst s1))"
proof -
  obtain rnd tr where s: "s = (rnd, tr)" by (cases s)
  obtain rnd1 tr1 where s1: "s1 = (rnd1, tr1)" by (cases s1)
  from dm_step_status [of e rnd tr x rnd1 tr1] assms s s1 show ?thesis
    by (auto simp: status_edge_def)
qed

lemma dm_states_hd: "\<exists>ss. dm_states e s xs = s # ss"
  by (cases xs) simp_all

lemma dm_states_path:
  "successively (\<lambda>a b. a = b \<or> status_edge a b)
     (map (\<lambda>s. vbs_k_status (fst s)) (dm_states e s xs))"
proof (induction xs arbitrary: s)
  case Nil
  show ?case by simp
next
  case (Cons x xs)
  show ?case
  proof (cases "dm_step e s x")
    case (Inl a)
    then show ?thesis by simp
  next
    case (Inr s1)
    obtain ss where ss: "dm_states e s1 xs = s1 # ss" using dm_states_hd by blast
    from Cons.IH [of s1] dm_step_edge [OF Inr] ss Inr show ?thesis
      by auto
  qed
qed

lemma dm_states_stable:
  assumes "vbs_k_status (fst s) = VIRTIO_DEV_INIT_FAILED
         \<or> vbs_k_status (fst s) = VIRTIO_DEV_START_FAILED"
  shows "\<forall>s1 \<in> set (dm_states e s xs). vbs_k_status (fst s1) = vbs_k_status (fst s)"
  using assms
proof (induction xs arbitrary: s)
  case Nil
  show ?case by simp
next
  case (Cons x xs)
  show ?case
  proof (cases "dm_step e s x")
    case (Inl a)
    then show ?thesis by simp
  next
    case (Inr s1)
    obtain rnd tr where s: "s = (rnd, tr)" by (cases s)
    obtain rnd1 tr1 where s1: "s1 = (rnd1, tr1)" by (cases s1)
    from dm_step_status [of e rnd tr x rnd1 tr1] Inr s s1 Cons.prems
    have eq: "vbs_k_status (fst s1) = vbs_k_status (fst s)" by auto
    with Cons.IH [of s1] Cons.prems Inr show ?thesis by auto
  qed
qed

lemma deinit_status:
  assumes "virtio_rnd_deinit e (Some rnd) tr = Inr (Some rnd1, tr1)"
  shows "(vbs_k_status rnd \<noteq> VIRTIO_DEV_STARTED \<and> vbs_k_status rnd1 = vbs_k_status rnd)
       \<or> (vbs_k_status rnd = VIRTIO_DEV_STARTED \<and> vbs_k_status rnd1 = VIRTIO_DEV_INITIAL)"
  using assms
  by (auto simp: virtio_rnd_deinit_def Let_def virtio_rnd_kernel_reset_def split: if_splits)

text \<open>
  C3. Along every list of operations on an instance, each status is the one before it
  or follows it by an edge of the path INITIAL, PRE\_INIT, INIT\_SUCCESS or
  INIT\_FAILED, STARTED or START\_FAILED, INITIAL. A step that changes the status is
  either a status write that asserts driver-ready, from INIT\_SUCCESS to STARTED or
  START\_FAILED, or a reset, from STARTED to INITIAL. From INIT\_FAILED and from
  START\_FAILED no list of operations changes the status. Deinit changes the status
  only from STARTED, to INITIAL. Init leaves an attached instance in INITIAL when the
  option loop gave INITIAL, and in INIT\_SUCCESS or INIT\_FAILED when it gave PRE\_INIT.
\<close>

theorem session_status_path:
  "successively (\<lambda>a b. a = b \<or> status_edge a b)
     (map (\<lambda>s. vbs_k_status (fst s)) (dm_states e s xs))
 \<and> (dm_step e (rnd, tr) x = Inr (rnd1, tr1) \<and> vbs_k_status rnd1 \<noteq> vbs_k_status rnd \<longrightarrow>
       (vbs_k_status rnd = VIRTIO_DEV_INIT_SUCCESS
          \<and> (vbs_k_status rnd1 = VIRTIO_DEV_STARTED \<or> vbs_k_status rnd1 = VIRTIO_DEV_START_FAILED)
          \<and> (\<exists>status. x = Op_set_status status
                \<and> status AND VIRTIO_CR_STATUS_DRIVER_OK e \<noteq> 0))
     \<or> (vbs_k_status rnd = VIRTIO_DEV_STARTED \<and> vbs_k_status rnd1 = VIRTIO_DEV_INITIAL
          \<and> x = Op_reset))
 \<and> (vbs_k_status (fst s) = VIRTIO_DEV_INIT_FAILED
      \<or> vbs_k_status (fst s) = VIRTIO_DEV_START_FAILED \<longrightarrow>
       (\<forall>s1 \<in> set (dm_states e s xs). vbs_k_status (fst s1) = vbs_k_status (fst s)))
 \<and> (virtio_rnd_deinit e (Some rnd_d) tr_d = Inr (Some rnd2, tr2) \<longrightarrow>
       (vbs_k_status rnd_d \<noteq> VIRTIO_DEV_STARTED \<and> vbs_k_status rnd2 = vbs_k_status rnd_d)
     \<or> (vbs_k_status rnd_d = VIRTIO_DEV_STARTED \<and> vbs_k_status rnd2 = VIRTIO_DEV_INITIAL))
 \<and> (virtio_rnd_init e dev opts tr_i = Inr (rc, Some rnd3, tr3) \<longrightarrow>
       (virtio_rnd_init_opts opts VIRTIO_DEV_INITIAL = VIRTIO_DEV_INITIAL
          \<and> vbs_k_status rnd3 = VIRTIO_DEV_INITIAL)
     \<or> (virtio_rnd_init_opts opts VIRTIO_DEV_INITIAL = VIRTIO_DEV_PRE_INIT
          \<and> (vbs_k_status rnd3 = VIRTIO_DEV_INIT_SUCCESS
             \<or> vbs_k_status rnd3 = VIRTIO_DEV_INIT_FAILED)))"
proof -
  have i: "(virtio_rnd_init_opts opts VIRTIO_DEV_INITIAL = VIRTIO_DEV_INITIAL
          \<and> vbs_k_status rnd3 = VIRTIO_DEV_INITIAL)
     \<or> (virtio_rnd_init_opts opts VIRTIO_DEV_INITIAL = VIRTIO_DEV_PRE_INIT
          \<and> (vbs_k_status rnd3 = VIRTIO_DEV_INIT_SUCCESS
             \<or> vbs_k_status rnd3 = VIRTIO_DEV_INIT_FAILED))"
    if "virtio_rnd_init e dev opts tr_i = Inr (rc, Some rnd3, tr3)"
    using init_attached [OF that] init_opts_cases [of opts] by auto
  have st: "(vbs_k_status rnd = VIRTIO_DEV_INIT_SUCCESS
          \<and> (vbs_k_status rnd1 = VIRTIO_DEV_STARTED \<or> vbs_k_status rnd1 = VIRTIO_DEV_START_FAILED)
          \<and> (\<exists>status. x = Op_set_status status
                \<and> status AND VIRTIO_CR_STATUS_DRIVER_OK e \<noteq> 0))
     \<or> (vbs_k_status rnd = VIRTIO_DEV_STARTED \<and> vbs_k_status rnd1 = VIRTIO_DEV_INITIAL
          \<and> x = Op_reset)"
    if "dm_step e (rnd, tr) x = Inr (rnd1, tr1)" "vbs_k_status rnd1 \<noteq> vbs_k_status rnd"
    using dm_step_status [OF that(1)] that(2) by blast
  from i st dm_states_path [of e s xs] dm_states_stable [of s e xs]
    deinit_status [of e rnd_d tr_d rnd2 tr2]
  show ?thesis by blast
qed

lemma states_example:
  "dm_states host_example (rnd_attached_example, tr_attached_example) [Op_set_status 4, Op_reset]
     = [(rnd_attached_example, tr_attached_example),
        (rnd_example VIRTIO_DEV_STARTED, tr_started_example),
        virtio_rnd_reset host_example (rnd_example VIRTIO_DEV_STARTED) tr_started_example]"
  by (simp add: handshake_example)

theorem session_status_path_witness:
  "map (\<lambda>s. vbs_k_status (fst s))
     (dm_states host_example (rnd_attached_example, tr_attached_example)
        [Op_set_status 4, Op_reset])
     = [VIRTIO_DEV_INIT_SUCCESS, VIRTIO_DEV_STARTED, VIRTIO_DEV_INITIAL]
 \<and> successively (\<lambda>a b. a = b \<or> status_edge a b)
     [VIRTIO_DEV_INIT_SUCCESS, VIRTIO_DEV_STARTED, VIRTIO_DEV_INITIAL]
 \<and> dm_step host_example (rnd_attached_example, tr_attached_example) (Op_set_status 4)
     = Inr (rnd_example VIRTIO_DEV_STARTED, tr_started_example)
 \<and> vbs_k_status (rnd_example VIRTIO_DEV_STARTED) \<noteq> vbs_k_status rnd_attached_example
 \<and> vbs_k_status rnd_attached_example = VIRTIO_DEV_INIT_SUCCESS
 \<and> vbs_k_status (fst (rnd_example VIRTIO_DEV_START_FAILED, tr_started_example))
     = VIRTIO_DEV_START_FAILED
 \<and> list_all (\<lambda>s1. vbs_k_status (fst s1) = VIRTIO_DEV_START_FAILED)
       (dm_states host_example (rnd_example VIRTIO_DEV_START_FAILED, tr_started_example)
          [Op_set_status 4, Op_reset])
 \<and> virtio_rnd_deinit host_example (Some (rnd_example VIRTIO_DEV_STARTED)) tr_started_example
     = Inr (Some ((rnd_example VIRTIO_DEV_INITIAL)
                    \<lparr>vbs_k_dev := vbs_dev_info_zero,
                     vbs_k_vqs := vbs_vqs_info_zero host_example, vbs_k_fd := - 1\<rparr>),
            tr_started_example @
              [Ev_vbs_kernel_stop 4 0, Ev_vbs_kernel_reset 4 0, Ev_close 4, Ev_free])
 \<and> virtio_rnd_init host_example dev_example (Some ''kernel=on'') []
     = Inr (0, Some rnd_attached_example, tr_attached_example)
 \<and> virtio_rnd_init_opts (Some ''kernel=on'') VIRTIO_DEV_INITIAL = VIRTIO_DEV_PRE_INIT
 \<and> 4 AND VIRTIO_CR_STATUS_DRIVER_OK host_example \<noteq> 0
 \<and> vbs_k_status ((rnd_example VIRTIO_DEV_INITIAL)
        \<lparr>vbs_k_dev := vbs_dev_info_zero,
         vbs_k_vqs := vbs_vqs_info_zero host_example, vbs_k_fd := - 1\<rparr>) = VIRTIO_DEV_INITIAL
 \<and> (vbs_k_status rnd_attached_example = VIRTIO_DEV_INIT_SUCCESS
      \<or> vbs_k_status rnd_attached_example = VIRTIO_DEV_INIT_FAILED)"
proof -
  have s0: "vbs_k_status rnd_attached_example = VIRTIO_DEV_INIT_SUCCESS"
    and s1: "vbs_k_status (rnd_example VIRTIO_DEV_STARTED) = VIRTIO_DEV_STARTED"
    and s2: "vbs_k_status (fst (rnd_example VIRTIO_DEV_START_FAILED, tr_started_example))
        = VIRTIO_DEV_START_FAILED"
    and fd: "vbs_k_fd (rnd_example VIRTIO_DEV_STARTED) = 4"
    by (simp_all add: rnd_attached_example_def rnd_example_def)
  have m: "map (\<lambda>s. vbs_k_status (fst s))
     (dm_states host_example (rnd_attached_example, tr_attached_example)
        [Op_set_status 4, Op_reset])
     = [VIRTIO_DEV_INIT_SUCCESS, VIRTIO_DEV_STARTED, VIRTIO_DEV_INITIAL]"
    by (simp only: states_example) (simp add: s0 s1 reset_step)
  have d: "dm_step host_example (rnd_attached_example, tr_attached_example) (Op_set_status 4)
     = Inr (rnd_example VIRTIO_DEV_STARTED, tr_started_example)"
    by (simp add: handshake_example)
  have k: "vbs_kernel_stop host_example = (\<lambda>tr fd. 0)"
     "vbs_kernel_reset host_example = (\<lambda>tr fd. 0)"
    by (simp_all add: host_example_def)
  have de: "virtio_rnd_deinit host_example (Some (rnd_example VIRTIO_DEV_STARTED))
       tr_started_example
     = Inr (Some ((rnd_example VIRTIO_DEV_INITIAL)
                    \<lparr>vbs_k_dev := vbs_dev_info_zero,
                     vbs_k_vqs := vbs_vqs_info_zero host_example, vbs_k_fd := - 1\<rparr>),
            tr_started_example @
              [Ev_vbs_kernel_stop 4 0, Ev_vbs_kernel_reset 4 0, Ev_close 4, Ev_free])"
    using deinit_started [OF s1, of host_example tr_started_example]
    by (simp add: fd k rnd_example_def)
  have o: "virtio_rnd_init_opts (Some ''kernel=on'') VIRTIO_DEV_INITIAL = VIRTIO_DEV_PRE_INIT"
    by (simp add: virtio_rnd_init_opts.simps strsep_def strncmp_eq_def)
  note t1 = session_status_path [of host_example "(rnd_attached_example, tr_attached_example)"
      "[Op_set_status 4, Op_reset]" rnd_attached_example tr_attached_example "Op_set_status 4"
      "rnd_example VIRTIO_DEV_STARTED" tr_started_example
      "rnd_example VIRTIO_DEV_STARTED" tr_started_example
      "(rnd_example VIRTIO_DEV_INITIAL)
          \<lparr>vbs_k_dev := vbs_dev_info_zero,
           vbs_k_vqs := vbs_vqs_info_zero host_example, vbs_k_fd := - 1\<rparr>"
      "tr_started_example @
          [Ev_vbs_kernel_stop 4 0, Ev_vbs_kernel_reset 4 0, Ev_close 4, Ev_free]"
      dev_example "Some ''kernel=on''" "[]" 0 rnd_attached_example tr_attached_example]
  note t2 = session_status_path [of host_example
      "(rnd_example VIRTIO_DEV_START_FAILED, tr_started_example)"
      "[Op_set_status 4, Op_reset]"]
  from t1 [THEN conjunct1]
  have p: "successively (\<lambda>a b. a = b \<or> status_edge a b)
     [VIRTIO_DEV_INIT_SUCCESS, VIRTIO_DEV_STARTED, VIRTIO_DEV_INITIAL]"
    by (simp only: m)
  from t2 [THEN conjunct2, THEN conjunct2, THEN conjunct1, rule_format, OF disjI2 [OF s2]]
  have q: "\<forall>s1 \<in> set (dm_states host_example
         (rnd_example VIRTIO_DEV_START_FAILED, tr_started_example) [Op_set_status 4, Op_reset]).
       vbs_k_status (fst s1) = VIRTIO_DEV_START_FAILED"
    by (simp only: s2) blast
  have ne: "vbs_k_status (rnd_example VIRTIO_DEV_STARTED) \<noteq> vbs_k_status rnd_attached_example"
    by (simp add: s0 s1)
  from t1 [THEN conjunct2, THEN conjunct1, rule_format, OF conjI [OF d ne]]
  have b: "4 AND VIRTIO_CR_STATUS_DRIVER_OK host_example \<noteq> 0"
    by (auto simp: s0)
  from t1 [THEN conjunct2, THEN conjunct2, THEN conjunct2, THEN conjunct1, rule_format, OF de]
  have c: "vbs_k_status ((rnd_example VIRTIO_DEV_INITIAL)
        \<lparr>vbs_k_dev := vbs_dev_info_zero,
         vbs_k_vqs := vbs_vqs_info_zero host_example, vbs_k_fd := - 1\<rparr>) = VIRTIO_DEV_INITIAL"
    by (auto simp: s1)
  from t1 [THEN conjunct2, THEN conjunct2, THEN conjunct2, THEN conjunct2, rule_format,
      OF attach_example]
  have e: "vbs_k_status rnd_attached_example = VIRTIO_DEV_INIT_SUCCESS
      \<or> vbs_k_status rnd_attached_example = VIRTIO_DEV_INIT_FAILED"
    by (auto simp: o)
  from q have q1: "list_all (\<lambda>s1. vbs_k_status (fst s1) = VIRTIO_DEV_START_FAILED)
       (dm_states host_example (rnd_example VIRTIO_DEV_START_FAILED, tr_started_example)
          [Op_set_status 4, Op_reset])"
    by (simp only: list_all_iff)
  from m p d ne s0 s2 q1 de attach_example o b c e show ?thesis
    by (intro conjI)
qed

subsection \<open>The notify handler of the user-space backend\<close>

lemma user_example:
  "virtio_rnd_init host_example dev_example None [] 
     = Inr (0, Some rnd_user_example,
         [Ev_open ''/dev/random'' 3, Ev_read 3 1 1, Ev_calloc True,
          Ev_virtio_linkup virtio_rnd_ops,
          Ev_pci_set_cfgdata 16 ''PCIR_DEVICE'' ''VIRTIO_DEV_RANDOM'',
          Ev_pci_set_cfgdata 16 ''PCIR_VENDOR'' ''VIRTIO_VENDOR'',
          Ev_pci_set_cfgdata 8 ''PCIR_CLASS'' ''PCIC_CRYPTO'',
          Ev_pci_set_cfgdata 16 ''PCIR_SUBDEV_0'' ''VIRTIO_TYPE_ENTROPY'',
          Ev_pci_set_cfgdata 16 ''PCIR_SUBVEND_0'' ''VIRTIO_VENDOR'',
          Ev_virtio_interrupt_init True 0, Ev_virtio_set_io_bar 0])"
  by (simp add: virtio_rnd_init_def virtio_rnd_init_backend_def virtio_rnd_init_register_def
     Let_def virtio_rnd_init_opts.simps strsep_def host_example_def
     read_c_def int_of_ssize_def calloc_virtio_rnd_def
     virtio_rnd_init_vbs_k_def virtio_linkup_def
     virtio_rnd_init_fallback_def virtio_rnd_init_cfg_def rnd_user_example_def rnd_example_def
     virtio_base_zero_def virtio_vq_info_zero_def VIRTIO_RND_RINGSZ_def vbs_vqs_info_zero_def)

lemma notify_loop_Inr:
  "virtio_rnd_notify_loop e fd q tr = Inr (q1, tr1) \<Longrightarrow>
     vq_pending q1 = []
   \<and> length (vq_released q1) = length (vq_released q) + length (vq_pending q)
   \<and> vq_batch q1 = vq_batch q + length (vq_pending q)
   \<and> (\<exists>evs. tr1 = tr @ evs \<and> Ev_vq_interrupt \<notin> set evs \<and> \<not> list_ex is_endchains evs)"
proof (induction e fd q tr rule: virtio_rnd_notify_loop.induct)
  case (1 e fd q tr)
  show ?case
  proof (cases "vq_pending q")
    case Nil
    with "1.prems" show ?thesis
      by (simp add: virtio_rnd_notify_loop.simps [of e fd q] vq_has_descs_def)
  next
    case (Cons c cs)
    let ?r = "read_c e tr fd (iov_len (ch_iov c))"
    let ?q = "vq_relchain (q\<lparr>vq_pending := cs\<rparr>) (ch_idx c) (word_of_int (int_of_ssize ?r))"
    have hd: "vq_has_descs q" using Cons by (simp add: vq_has_descs_def)
    have gc: "vq_getchain q = Some (ch_idx c, ch_iov c, q\<lparr>vq_pending := cs\<rparr>)"
      using Cons by (simp add: vq_getchain_def)
    from "1.prems" Cons have pos: "0 < int_of_ssize ?r"
      by (simp add: virtio_rnd_notify_loop.simps [of e fd q] hd gc Let_def split: if_splits)
    with "1.prems" have rec: "virtio_rnd_notify_loop e fd ?q
        (tr @ [Ev_read fd (iov_len (ch_iov c)) ?r]) = Inr (q1, tr1)"
      by (simp add: virtio_rnd_notify_loop.simps [of e fd q] hd gc Let_def)
    have np: "\<not> \<not> 0 < int_of_ssize ?r" using pos by simp
    from "1.IH" [OF hd gc refl refl refl refl refl np rec]
    show ?thesis
      using Cons by (auto simp: vq_relchain_def)
  qed
qed

text \<open>
  C4. With the completion signal of the transport framework as the specification gives
  it, and no chain of an earlier batch left unsignalled: when the notify handler returns,
  it has added events that hold exactly one completion signal, and a guest interrupt is
  among them if and only if the batch released at least one chain; a kick on a queue
  with no pending chain adds no guest interrupt.
\<close>

theorem virtio_rnd_notify_interrupt:
  assumes "virtio_rnd_notify e rnd q tr = Inr (q1, tr1)"
    and "vq_batch q = 0"
  shows "\<exists>evs. tr1 = tr @ evs
     \<and> (Ev_vq_interrupt \<in> set evs \<longleftrightarrow> length (vq_released q) < length (vq_released q1))
     \<and> (vq_pending q = [] \<longrightarrow> Ev_vq_interrupt \<notin> set evs)
     \<and> length (filter is_endchains evs) = 1
     \<and> vq_batch q1 = 0"
proof (cases "rnd_fd rnd < 0")
  case True
  with assms have "q1 = q\<lparr>vq_batch := 0\<rparr>" "tr1 = tr @ [Ev_vq_endchains 0]"
    by (auto simp: virtio_rnd_notify_def vq_endchains_def)
  then show ?thesis by simp
next
  case False
  with assms(1) obtain q2 tr2 where
    l: "virtio_rnd_notify_loop e (rnd_fd rnd) q tr = Inr (q2, tr2)"
    and r: "vq_endchains q2 1 tr2 = (q1, tr1)"
    by (auto simp: virtio_rnd_notify_def split: sum.splits)
  from notify_loop_Inr [OF l] obtain evs where
    p: "vq_pending q2 = []"
      "length (vq_released q2) = length (vq_released q) + length (vq_pending q)"
      "vq_batch q2 = vq_batch q + length (vq_pending q)"
      "tr2 = tr @ evs" "Ev_vq_interrupt \<notin> set evs" "\<not> list_ex is_endchains evs"
    by blast
  have f: "filter is_endchains evs = []"
    using p(6) by (simp add: list_ex_iff filter_empty_conv)
  from r have q1: "q1 = q2\<lparr>vq_batch := 0\<rparr>"
    and tr1: "tr1 = tr2 @ [Ev_vq_endchains 1] @ (if 0 < vq_batch q2 then [Ev_vq_interrupt] else [])"
    by (auto simp: vq_endchains_def)
  show ?thesis
  proof (intro exI [of _ "evs @ [Ev_vq_endchains 1]
        @ (if 0 < vq_batch q2 then [Ev_vq_interrupt] else [])"] conjI)
    show "tr1 = tr @ evs @ [Ev_vq_endchains 1]
        @ (if 0 < vq_batch q2 then [Ev_vq_interrupt] else [])"
      using tr1 p(4) by simp
    show "(Ev_vq_interrupt \<in> set (evs @ [Ev_vq_endchains 1]
        @ (if 0 < vq_batch q2 then [Ev_vq_interrupt] else [])))
        = (length (vq_released q) < length (vq_released q1))"
      using p assms(2) q1 by auto
    show "vq_pending q = [] \<longrightarrow> Ev_vq_interrupt \<notin> set (evs @ [Ev_vq_endchains 1]
        @ (if 0 < vq_batch q2 then [Ev_vq_interrupt] else []))"
      using p assms(2) by auto
    show "length (filter is_endchains (evs @ [Ev_vq_endchains 1]
        @ (if 0 < vq_batch q2 then [Ev_vq_interrupt] else []))) = 1"
      using f by simp
    show "vq_batch q1 = 0" using q1 by simp
  qed
qed

lemma notify_loop_full:
  assumes full: "\<forall>tr fd n. read_c e tr fd n = int n"
    and B: "0 < B" "B < 2 ^ 31"
  shows "\<forall>c \<in> set (vq_pending q). iov_len (ch_iov c) = B \<Longrightarrow>
     virtio_rnd_notify_loop e fd q tr =
       Inr (q\<lparr>vq_pending := [],
               vq_released := vq_released q @ map (\<lambda>c. (ch_idx c, of_nat B)) (vq_pending q),
               vq_batch := vq_batch q + length (vq_pending q)\<rparr>,
            tr @ map (\<lambda>c. Ev_read fd B (int B)) (vq_pending q))"
proof (induction "vq_pending q" arbitrary: q tr)
  case Nil
  from Nil.hyps [symmetric] show ?case
    by (simp add: virtio_rnd_notify_loop.simps [of e fd q] vq_has_descs_def)
next
  case (Cons c cs)
  note pend = Cons.hyps(2) [symmetric]
  have len: "iov_len (ch_iov c) = B" using Cons.prems pend by simp
  have ios: "int_of_ssize (int B) = int B"
    using B by (intro int_of_ssize_id) simp_all
  let ?q = "vq_relchain (q\<lparr>vq_pending := cs\<rparr>) (ch_idx c) (of_nat B)"
  have hd: "vq_has_descs q" using pend by (simp add: vq_has_descs_def)
  have gc: "vq_getchain q = Some (ch_idx c, ch_iov c, q\<lparr>vq_pending := cs\<rparr>)"
    using pend by (simp add: vq_getchain_def)
  have pq: "cs = vq_pending ?q" by (simp add: vq_relchain_def)
  have all: "\<forall>c \<in> set (vq_pending ?q). iov_len (ch_iov c) = B"
    using Cons.prems pend by (simp add: vq_relchain_def)
  have unf: "virtio_rnd_notify_loop e fd q tr =
      virtio_rnd_notify_loop e fd ?q (tr @ [Ev_read fd B (int B)])"
    using B by (simp add: virtio_rnd_notify_loop.simps [of e fd q] hd gc Let_def full len ios)
  show ?case
    unfolding unf Cons.hyps(1) [OF pq all, of "tr @ [Ev_read fd B (int B)]"]
    using pend by (simp add: vq_relchain_def)
qed

lemma host_example_full: "\<forall>tr fd n. read_c host_example tr fd n = int n"
  by (simp add: read_c_def host_example_def)

lemma fd_user_example: "rnd_fd rnd_user_example = 3"
  by (simp add: rnd_user_example_def rnd_example_def)

theorem virtio_rnd_notify_interrupt_witness:
  "virtio_rnd_notify host_example rnd_user_example (vq_example []) []
     = Inr (vq_example [], [] @ [Ev_vq_endchains 1])
 \<and> vq_batch (vq_example []) = 0
 \<and> vq_pending (vq_example []) = []
 \<and> Ev_vq_interrupt \<notin> set [Ev_vq_endchains 1]
 \<and> virtio_rnd_notify host_example rnd_user_example (vq_example [chain_example 5 16]) []
     = Inr ((vq_example [])\<lparr>vq_released := [(5, 16)]\<rparr>,
            [] @ [Ev_read 3 16 16, Ev_vq_endchains 1, Ev_vq_interrupt])
 \<and> vq_batch (vq_example [chain_example 5 16]) = 0
 \<and> Ev_vq_interrupt \<in> set [Ev_read 3 16 16, Ev_vq_endchains 1, Ev_vq_interrupt]
 \<and> length (vq_released (vq_example [chain_example 5 16]))
      < length (vq_released ((vq_example [])\<lparr>vq_released := [(5, 16)]\<rparr>))"
proof -
  have n0: "virtio_rnd_notify host_example rnd_user_example (vq_example []) []
     = Inr (vq_example [], [] @ [Ev_vq_endchains 1])"
    by (simp add: fd_user_example virtio_rnd_notify_def virtio_rnd_notify_loop.simps
          vq_has_descs_def vq_endchains_def vq_example_def)
  have n1: "virtio_rnd_notify host_example rnd_user_example (vq_example [chain_example 5 16]) []
     = Inr ((vq_example [])\<lparr>vq_released := [(5, 16)]\<rparr>,
            [] @ [Ev_read 3 16 16, Ev_vq_endchains 1, Ev_vq_interrupt])"
    by (simp add: fd_user_example host_example_full virtio_rnd_notify_def
          virtio_rnd_notify_loop.simps vq_has_descs_def vq_getchain_def vq_relchain_def
          vq_endchains_def vq_example_def chain_example_def int_of_ssize_def Let_def)
  have b0: "vq_batch (vq_example []) = 0" and p0: "vq_pending (vq_example []) = []"
    and b1: "vq_batch (vq_example [chain_example 5 16]) = 0"
    by (simp_all add: vq_example_def)
  from virtio_rnd_notify_interrupt [OF n0 b0] p0
  have i0: "Ev_vq_interrupt \<notin> set [Ev_vq_endchains 1]" by auto
  from virtio_rnd_notify_interrupt [OF n1 b1]
  have i1: "Ev_vq_interrupt \<in> set [Ev_read 3 16 16, Ev_vq_endchains 1, Ev_vq_interrupt]
      \<longleftrightarrow> length (vq_released (vq_example [chain_example 5 16]))
      < length (vq_released ((vq_example [])\<lparr>vq_released := [(5, 16)]\<rparr>))"
    by auto
  have l: "length (vq_released (vq_example [chain_example 5 16]))
      < length (vq_released ((vq_example [])\<lparr>vq_released := [(5, 16)]\<rparr>))"
    by (simp add: vq_example_def)
  from n0 b0 p0 i0 n1 b1 i1 l show ?thesis by blast
qed


text \<open>
  C5, as the code has it. The claim is for every buffer length B from 0 on. The handler
  asserts that each read returned more than zero and keeps the count in an \<open>int\<close>, so
  what holds is: with a valid entropy handle, an entropy source whose every read fills
  the full requested length, and N pending chains each with one buffer segment of length
  B, where B is at least 1 and less than 2 to the power 31, the notify handler releases
  exactly the N chains, in order, each reporting exactly B bytes written, and raises
  exactly one completion signal.
\<close>

theorem virtio_rnd_notify_full:
  assumes "0 \<le> rnd_fd rnd"
    and "\<forall>tr fd n. read_c e tr fd n = int n"
    and "\<forall>c \<in> set (vq_pending q). iov_len (ch_iov c) = B"
    and "0 < B" and "B < 2 ^ 31"
  shows "virtio_rnd_notify e rnd q tr =
       Inr (q\<lparr>vq_pending := [],
               vq_released := vq_released q @ map (\<lambda>c. (ch_idx c, of_nat B)) (vq_pending q),
               vq_batch := 0\<rparr>,
            tr @ map (\<lambda>c. Ev_read (rnd_fd rnd) B (int B)) (vq_pending q)
               @ [Ev_vq_endchains 1]
               @ (if 0 < vq_batch q + length (vq_pending q) then [Ev_vq_interrupt] else []))
     \<and> unat (of_nat B :: 32 word) = B
     \<and> length (filter is_endchains
          (map (\<lambda>c. Ev_read (rnd_fd rnd) B (int B)) (vq_pending q)
             @ [Ev_vq_endchains 1]
             @ (if 0 < vq_batch q + length (vq_pending q) then [Ev_vq_interrupt] else []))) = 1"
proof -
  have 1: "virtio_rnd_notify e rnd q tr =
       Inr (q\<lparr>vq_pending := [],
               vq_released := vq_released q @ map (\<lambda>c. (ch_idx c, of_nat B)) (vq_pending q),
               vq_batch := 0\<rparr>,
            tr @ map (\<lambda>c. Ev_read (rnd_fd rnd) B (int B)) (vq_pending q)
               @ [Ev_vq_endchains 1]
               @ (if 0 < vq_batch q + length (vq_pending q) then [Ev_vq_interrupt] else []))"
    using assms(1) notify_loop_full [OF assms(2,4,5,3), of "rnd_fd rnd" tr]
    by (simp add: virtio_rnd_notify_def vq_endchains_def)
  have "B < 2 ^ 32" using assms(5) by simp
  then have 2: "unat (of_nat B :: 32 word) = B"
    by (simp add: unat_of_nat)
  have 3: "filter is_endchains (map (\<lambda>c. Ev_read (rnd_fd rnd) B (int B)) (vq_pending q)) = []"
    by (simp add: filter_empty_conv)
  from 1 2 3 show ?thesis by simp
qed

theorem virtio_rnd_notify_full_witness:
  "0 \<le> rnd_fd rnd_user_example
 \<and> (\<forall>tr fd n. read_c host_example tr fd n = int n)
 \<and> map (\<lambda>c. iov_len (ch_iov c))
       (vq_pending (vq_example [chain_example 5 16, chain_example 7 16])) = [16, 16]
 \<and> virtio_rnd_notify host_example rnd_user_example
       (vq_example [chain_example 5 16, chain_example 7 16]) []
     = Inr ((vq_example [])\<lparr>vq_released := [(5, 16), (7, 16)]\<rparr>,
            [Ev_read 3 16 16, Ev_read 3 16 16, Ev_vq_endchains 1, Ev_vq_interrupt])
 \<and> virtio_rnd_notify host_example rnd_user_example (vq_example []) []
     = Inr (vq_example [], [Ev_vq_endchains 1])"
proof -
  have h1: "0 \<le> rnd_fd rnd_user_example" by (simp add: fd_user_example)
  have h3: "\<forall>c \<in> set (vq_pending (vq_example [chain_example 5 16, chain_example 7 16])).
       iov_len (ch_iov c) = 16"
    by (simp add: vq_example_def chain_example_def)
  have h3': "\<forall>c \<in> set (vq_pending (vq_example [])). iov_len (ch_iov c) = 16"
    by (simp add: vq_example_def)
  have h4: "0 < (16 :: nat)" and h5: "(16 :: nat) < 2 ^ 31" by simp_all
  from virtio_rnd_notify_full [OF h1 host_example_full h3 h4 h5, of "[]"]
  have a: "virtio_rnd_notify host_example rnd_user_example
       (vq_example [chain_example 5 16, chain_example 7 16]) []
     = Inr ((vq_example [])\<lparr>vq_released := [(5, 16), (7, 16)]\<rparr>,
            [Ev_read 3 16 16, Ev_read 3 16 16, Ev_vq_endchains 1, Ev_vq_interrupt])"
    by (simp add: fd_user_example vq_example_def chain_example_def)
  from virtio_rnd_notify_full [OF h1 host_example_full h3' h4 h5, of "[]"]
  have b: "virtio_rnd_notify host_example rnd_user_example (vq_example []) []
     = Inr (vq_example [], [Ev_vq_endchains 1])"
    by (simp add: fd_user_example vq_example_def)
  have h3m: "map (\<lambda>c. iov_len (ch_iov c))
       (vq_pending (vq_example [chain_example 5 16, chain_example 7 16])) = [16, 16]"
    by (simp add: vq_example_def chain_example_def)
  from h1 host_example_full h3m a b show ?thesis by (intro conjI)
qed

text \<open>
  The claim C5 as stated fails for B = 0: the read fills the zero bytes requested and
  returns 0, and the assertion of line 328 ends the process before any chain is released
  or any completion signal raised. It fails in the same way for B = 2 to the power 31,
  where the count no longer fits the \<open>int\<close>.
\<close>

theorem virtio_rnd_notify_full_counterexample:
  "0 \<le> rnd_fd rnd_user_example
 \<and> read_c host_example [] 3 0 = 0
 \<and> virtio_rnd_notify host_example rnd_user_example (vq_example [chain_example 5 0]) []
     = Inl Assertion_failed
 \<and> read_c host_example [] 3 (2 ^ 31) = 2 ^ 31
 \<and> virtio_rnd_notify host_example rnd_user_example (vq_example [chain_example 5 (2 ^ 31)]) []
     = Inl Assertion_failed"
  by (simp add: fd_user_example host_example_full virtio_rnd_notify_def
        virtio_rnd_notify_loop.simps vq_has_descs_def vq_getchain_def vq_example_def
        chain_example_def int_of_ssize_def Let_def)

end
